theory Spec2Isabelle
  imports Complex_Main
begin

section \<open>JavaScript values, errors and the observable world\<close>

text \<open>
  Values that reach the program from JSON documents (response bodies, the decoded middle
  segment of a token, the \<open>user=\<close> part of a credential blob). \<open>JUndefined\<close> is the
  value of a missing property. Numbers are the rationals: every finite double is one,
  and the program only tests them for zero and compares them.
\<close>

datatype json =
    JUndefined
  | JNull
  | JBool bool
  | JNum rat
  | JStr string
  | JArr "json list"
  | JObj "(string \<times> json) list"

text \<open>The exceptions the program can meet, by the name of their class.\<close>

datatype jsError =
    TypeError
  | SyntaxError
  | URIError
  | InvalidArgumentError
  | AxiosError string
  | FsError string

text \<open>ToBoolean.\<close>

fun truthy :: "json \<Rightarrow> bool" where
  "truthy JUndefined = False"
| "truthy JNull = False"
| "truthy (JBool b) = b"
| "truthy (JNum n) = (n \<noteq> 0)"
| "truthy (JStr s) = (s \<noteq> [])"
| "truthy (JArr xs) = True"
| "truthy (JObj fs) = True"

fun nullish :: "json \<Rightarrow> bool" where
  "nullish JUndefined = True"
| "nullish JNull = True"
| "nullish v = False"

text \<open>
  Reading a named property \<open>v.k\<close> of a value that is neither \<open>null\<close> nor
  \<open>undefined\<close>. The names the program reads are own properties of objects only.
\<close>

fun member :: "json \<Rightarrow> string \<Rightarrow> json" where
  "member (JObj fs) k = (case map_of fs k of Some v \<Rightarrow> v | None \<Rightarrow> JUndefined)"
| "member v k = JUndefined"

text \<open>\<open>v.k\<close> in general: a TypeError on \<open>null\<close> and \<open>undefined\<close>.\<close>

definition getProp :: "json \<Rightarrow> string \<Rightarrow> jsError + json" where
  "getProp v k = (if nullish v then Inl TypeError else Inr (member v k))"

text \<open>\<open>v?.k\<close> and \<open>v ?? d\<close>.\<close>

definition optChain :: "json \<Rightarrow> string \<Rightarrow> json" where
  "optChain v k = (if nullish v then JUndefined else member v k)"

definition orDefault :: "json \<Rightarrow> json \<Rightarrow> json" where
  "orDefault v d = (if nullish v then d else v)"

text \<open>\<open>v[0]\<close>.\<close>

fun index0 :: "json \<Rightarrow> jsError + json" where
  "index0 JUndefined = Inl TypeError"
| "index0 JNull = Inl TypeError"
| "index0 (JArr xs) = Inr (case xs of [] \<Rightarrow> JUndefined | x # _ \<Rightarrow> x)"
| "index0 (JStr s) = Inr (case s of [] \<Rightarrow> JUndefined | c # _ \<Rightarrow> JStr [c])"
| "index0 (JObj fs) = Inr (member (JObj fs) ''0'')"
| "index0 v = Inr JUndefined"

text \<open>\<open>s.split(sep)\<close> for a non-empty separator string.\<close>

function splitFrom :: "string \<Rightarrow> string \<Rightarrow> string \<Rightarrow> string list" where
  "splitFrom sep acc [] = [rev acc]"
| "splitFrom sep acc (c # cs) =
     (if sep \<noteq> [] \<and> take (length sep) (c # cs) = sep
      then rev acc # splitFrom sep [] (drop (length sep - 1) cs)
      else splitFrom sep (c # acc) cs)"
  by pat_completeness auto
termination
  by (relation "measure (\<lambda>(sep, acc, s). length s)") auto

definition split :: "string \<Rightarrow> string \<Rightarrow> string list" where
  "split s sep = splitFrom sep [] s"

subsection \<open>Requests, responses, the trace\<close>

record request =
  verb :: string
  url :: string
  bearer :: "json option"
  payload :: json

record response =
  status :: int
  body :: json

datatype axiosResult = Resolve response | Reject jsError

datatype level = Info | Warn | Error

text \<open>
  A log message is kept as the pieces of its template: literal text, interpolated
  values, and \<open>error.message\<close> of a caught exception.
\<close>

datatype part = T string | V json | E jsError

datatype event =
    Log level "part list"
  | Http request
  | Sleep nat
  | WriteTokenFile
  | Stdout
  | Banner

datatype diskFile = Missing | Unreadable jsError | Content string

text \<open>
  token.json: absent, unreadable or not JSON, or holding the object that \<open>saveToken\<close>
  wrote (property name to token).
\<close>

datatype tokenDisk = NoTokenFile | BadTokenFile jsError | SavedTokens "string \<rightharpoonup> json"

text \<open>
  The world the process runs in. \<open>trace\<close> is everything it has done so far, in order;
  \<open>tokens\<close> is \<open>TokenManager.tokens\<close> and \<open>wallets\<close> is \<open>PawsClient.wallets\<close>;
  \<open>tokenFile\<close> is token.json on disk. The other fields are what the
  process cannot control: \<open>net n cfg\<close> is how the service answers the \<open>n\<close>-th call of
  axios, \<open>writeError n\<close> what the \<open>n\<close>-th write of token.json throws, \<open>clock n\<close> the
  epoch second read after \<open>n\<close> events, the two input files, and the library functions
  \<open>JSON.parse\<close> (\<open>None\<close> for a SyntaxError), base64 decoding of
  \<open>Buffer.from(s, "base64").toString()\<close>, \<open>decodeURIComponent\<close> (\<open>None\<close> for a
  URIError) and the conversion of a value to a property key.
\<close>

record world =
  trace :: "event list"
  tokens :: "string \<rightharpoonup> json"
  wallets :: "string list"
  tokenFile :: tokenDisk
  net :: "nat \<Rightarrow> request \<Rightarrow> axiosResult"
  writeError :: "nat \<Rightarrow> jsError option"
  clock :: "nat \<Rightarrow> int"
  dataFile :: diskFile
  walletFile :: diskFile
  jsonParse :: "string \<Rightarrow> json option"
  base64Decode :: "string \<Rightarrow> string"
  decodeURIComponent :: "string \<Rightarrow> string option"
  toPropertyKey :: "json \<Rightarrow> string"

definition emit :: "event \<Rightarrow> world \<Rightarrow> world" where
  "emit e w = w\<lparr>trace := trace w @ [e]\<rparr>"

text \<open>
  Modelled from the spec: config/logger.js is not among the sources. The logger is the
  excluded logging collaborator: a call records the level and the message and does
  nothing else.
\<close>

definition logger :: "level \<Rightarrow> part list \<Rightarrow> world \<Rightarrow> world" where
  "logger lvl msg w = emit (Log lvl msg) w"

text \<open>\<open>await new Promise((resolve) => setTimeout(resolve, ms))\<close>.\<close>

definition sleep :: "nat \<Rightarrow> world \<Rightarrow> world" where
  "sleep ms w = emit (Sleep ms) w"

fun isHttp :: "event \<Rightarrow> bool" where
  "isHttp (Http r) = True"
| "isHttp e = False"

definition httpCalls :: "world \<Rightarrow> event list" where
  "httpCalls w = filter isHttp (trace w)"

text \<open>One call of \<open>axios(config)\<close>: it resolves with a response or rejects.\<close>

definition axios :: "request \<Rightarrow> world \<Rightarrow> axiosResult \<times> world" where
  "axios config w = (net w (length (httpCalls w)) config, emit (Http config) w)"

section \<open>ApiService\<close>

definition BASE_URL :: string where
  "BASE_URL = ''https://api.paws.community/v1''"

definition AUTH :: string where "AUTH = ''/user/auth''"
definition USER_INFO :: string where "USER_INFO = ''/user''"
definition WALLET :: string where "WALLET = ''/user/wallet''"
definition QUESTS_LIST :: string where "QUESTS_LIST = ''/quests/list''"
definition QUEST_COMPLETE :: string where "QUEST_COMPLETE = ''/quests/completed''"
definition QUEST_CLAIM :: string where "QUEST_CLAIM = ''/quests/claim''"

text \<open>
  \<open>makeRequest(config, maxRetries = 3, retryDelay = 5000)\<close>. The result is the thrown
  error, or the value returned: a response, or \<open>undefined\<close> (\<open>None\<close>) when the loop
  ends without an attempt.
\<close>

function makeRequestFrom ::
  "request \<Rightarrow> nat \<Rightarrow> nat \<Rightarrow> nat \<Rightarrow> world \<Rightarrow> (jsError + response option) \<times> world" where
  "makeRequestFrom config maxRetries retryDelay attempt w =
     (if attempt \<le> maxRetries then
        (case axios config w of
           (Resolve r, w1) \<Rightarrow> (Inr (Some r), w1)
         | (Reject err, w1) \<Rightarrow>
             if attempt = maxRetries then (Inl err, w1)
             else makeRequestFrom config maxRetries retryDelay (attempt + 1)
                    (sleep retryDelay
                      (logger Warn
                        [T ''Attempt '', V (JNum (of_nat attempt)), T ''/'',
                         V (JNum (of_nat maxRetries)), T '' failed: '', E err,
                         T ''. Retrying in '', V (JNum (of_nat retryDelay / 1000)), T ''s...'']
                        w1)))
      else (Inr None, w))"
  by pat_completeness auto
termination
  by (relation "measure (\<lambda>(config, maxRetries, retryDelay, attempt, w). Suc maxRetries - attempt)")
     auto

declare makeRequestFrom.simps [simp del]

definition makeRequest :: "request \<Rightarrow> world \<Rightarrow> (jsError + response option) \<times> world" where
  "makeRequest config w = makeRequestFrom config 3 5000 1 w"

text \<open>What a method that reports \<open>{ success, ... }\<close> returns: its result, or its error text.\<close>

datatype 'a outcome = Success 'a | Failure part

record claimStreakInfo =
  lastClaimDate :: json
  currentStreak :: json

record allocationInfo =
  hamster :: json
  telegram :: json
  paws :: json
  dogs :: json
  notcoin :: json
  total :: json

record profile =
  balance :: json
  username :: json
  firstname :: json
  wallet :: json
  claimStreak :: claimStreakInfo
  allocation :: allocationInfo

definition hamsterDefault :: json where
  "hamsterDefault = JObj [(''initial'', JNum 0), (''converted'', JNum 0)]"

definition telegramDefault :: json where
  "telegramDefault =
     JObj [(''premium'', JBool False), (''age'', JNum 0), (''year'', JNum 0), (''converted'', JNum 0)]"

definition pawsDefault :: json where
  "pawsDefault = JObj [(''converted'', JNum 0)]"

definition dogsDefault :: json where
  "dogsDefault = JObj [(''initial'', JNum 0), (''converted'', JNum 0), (''percent'', JNum 0)]"

definition notcoinDefault :: json where
  "notcoinDefault = JObj [(''initial'', JNum 0), (''converted'', JNum 0), (''createAt'', JNull)]"

text \<open>
  \<open>extractUserData(userData)\<close>. The destructuring throws on \<open>null\<close> and \<open>undefined\<close>,
  and so do \<open>gameData.balance\<close> and \<open>userInfo.username\<close> when the part is missing.
\<close>

definition extractUserData :: "json \<Rightarrow> jsError + profile" where
  "extractUserData userData =
     (if nullish userData then Inl TypeError
      else
        let gameData = member userData ''gameData'';
            userInfo = member userData ''userData'';
            streak = member userData ''claimStreakData'';
            alloc = member userData ''allocationData''
        in if nullish gameData then Inl TypeError
           else if nullish userInfo then Inl TypeError
           else Inr \<lparr>
             balance = member gameData ''balance'',
             username = member userInfo ''username'',
             firstname = member userInfo ''firstname'',
             wallet = member userInfo ''wallet'',
             claimStreak = \<lparr>
               lastClaimDate = optChain streak ''lastClaimDate'',
               currentStreak = optChain streak ''claimStreak'' \<rparr>,
             allocation = \<lparr>
               hamster = orDefault (optChain alloc ''hamster'') hamsterDefault,
               telegram = orDefault (optChain alloc ''telegram'') telegramDefault,
               paws = orDefault (optChain alloc ''paws'') pawsDefault,
               dogs = orDefault (optChain alloc ''dogs'') dogsDefault,
               notcoin = orDefault (optChain alloc ''notcoin'') notcoinDefault,
               total = orDefault (optChain alloc ''total'') (JNum 0) \<rparr> \<rparr>)"

text \<open>
  \<open>const [token, userData] = v\<close>: the first two items of an array or of a string,
  a TypeError on anything that is not iterable.
\<close>

fun destructure2 :: "json \<Rightarrow> jsError + json \<times> json" where
  "destructure2 (JArr xs) =
     Inr (case xs of [] \<Rightarrow> (JUndefined, JUndefined)
          | [a] \<Rightarrow> (a, JUndefined)
          | a # b # _ \<Rightarrow> (a, b))"
| "destructure2 (JStr s) =
     Inr (case s of [] \<Rightarrow> (JUndefined, JUndefined)
          | [a] \<Rightarrow> (JStr [a], JUndefined)
          | a # b # _ \<Rightarrow> (JStr [a], JStr [b]))"
| "destructure2 v = Inl TypeError"

text \<open>
  The request configurations. \<open>bearer\<close> is the token of the \<open>Authorization\<close> header
  that \<open>getAuthHeaders\<close> adds to the fixed headers.
\<close>

definition authRequest :: "string \<Rightarrow> request" where
  "authRequest initData =
     \<lparr>verb = ''post'', url = BASE_URL @ AUTH, bearer = None,
      payload = JObj [(''data'', JStr initData), (''referralCode'', JStr ''vuY5ILO1'')]\<rparr>"

definition userInfoRequest :: "json \<Rightarrow> request" where
  "userInfoRequest token =
     \<lparr>verb = ''get'', url = BASE_URL @ USER_INFO, bearer = Some token, payload = JUndefined\<rparr>"

definition walletRequest :: "json \<Rightarrow> json \<Rightarrow> request" where
  "walletRequest token walletAddress =
     \<lparr>verb = ''post'', url = BASE_URL @ WALLET, bearer = Some token,
      payload = JObj [(''wallet'', walletAddress)]\<rparr>"

definition questsListRequest :: "json \<Rightarrow> request" where
  "questsListRequest token =
     \<lparr>verb = ''get'', url = BASE_URL @ QUESTS_LIST, bearer = Some token, payload = JUndefined\<rparr>"

definition completeRequest :: "json \<Rightarrow> json \<Rightarrow> request" where
  "completeRequest token questId =
     \<lparr>verb = ''post'', url = BASE_URL @ QUEST_COMPLETE, bearer = Some token,
      payload = JObj [(''questId'', questId)]\<rparr>"

definition claimRequest :: "json \<Rightarrow> json \<Rightarrow> request" where
  "claimRequest token questId =
     \<lparr>verb = ''post'', url = BASE_URL @ QUEST_CLAIM, bearer = Some token,
      payload = JObj [(''questId'', questId)]\<rparr>"

definition authenticate :: "string \<Rightarrow> world \<Rightarrow> (json \<times> profile) outcome \<times> world" where
  "authenticate initData w =
     (case makeRequest (authRequest initData) w of
        (Inl err, w1) \<Rightarrow> (Failure (E err), w1)
      | (Inr None, w1) \<Rightarrow> (Failure (E TypeError), w1)
      | (Inr (Some response), w1) \<Rightarrow>
          (if status response = 201 then
             (case getProp (body response) ''success'' of
                Inl err \<Rightarrow> (Failure (E err), w1)
              | Inr success \<Rightarrow>
                  (if truthy success then
                     (case destructure2 (member (body response) ''data'') of
                        Inl err \<Rightarrow> (Failure (E err), w1)
                      | Inr (token, userData) \<Rightarrow>
                          (case extractUserData userData of
                             Inl err \<Rightarrow> (Failure (E err), w1)
                           | Inr p \<Rightarrow> (Success (token, p), w1)))
                   else (Failure (T ''Authentication failed''), w1)))
           else (Failure (T ''Authentication failed''), w1)))"

definition getUserInfo :: "json \<Rightarrow> world \<Rightarrow> profile outcome \<times> world" where
  "getUserInfo token w =
     (case makeRequest (userInfoRequest token) w of
        (Inl err, w1) \<Rightarrow> (Failure (E err), w1)
      | (Inr None, w1) \<Rightarrow> (Failure (E TypeError), w1)
      | (Inr (Some response), w1) \<Rightarrow>
          (if status response = 200 then
             (case getProp (body response) ''success'' of
                Inl err \<Rightarrow> (Failure (E err), w1)
              | Inr success \<Rightarrow>
                  (if truthy success then
                     (case extractUserData (member (body response) ''data'') of
                        Inl err \<Rightarrow> (Failure (E err), w1)
                      | Inr p \<Rightarrow> (Success p, w1))
                   else (Failure (T ''Failed to get user info''), w1)))
           else (Failure (T ''Failed to get user info''), w1)))"

text \<open>
  \<open>linkWallet(token, wallet)\<close> returns \<open>{ success, error }\<close>: the value of
  \<open>response.status === 201 && response.data.success\<close> and the error text, \<open>null\<close>
  when the status is 201.
\<close>

definition linkWallet :: "json \<Rightarrow> json \<Rightarrow> world \<Rightarrow> (json \<times> part) \<times> world" where
  "linkWallet token walletAddress w =
     (case makeRequest (walletRequest token walletAddress) w of
        (Inl err, w1) \<Rightarrow> ((JBool False, E err), w1)
      | (Inr None, w1) \<Rightarrow> ((JBool False, E TypeError), w1)
      | (Inr (Some response), w1) \<Rightarrow>
          (if status response = 201 then
             (case getProp (body response) ''success'' of
                Inl err \<Rightarrow> ((JBool False, E err), w1)
              | Inr success \<Rightarrow> ((success, V JNull), w1))
           else ((JBool False, T ''Failed to link wallet''), w1)))"


section \<open>TokenManager\<close>

definition loadTokens :: "world \<Rightarrow> (string \<rightharpoonup> json) \<times> world" where
  "loadTokens w =
     (case tokenFile w of
        NoTokenFile \<Rightarrow> (Map.empty, w)
      | BadTokenFile err \<Rightarrow> (Map.empty, logger Error [T ''Error reading token file: '', E err] w)
      | SavedTokens m \<Rightarrow> (m, w))"

fun isWrite :: "event \<Rightarrow> bool" where
  "isWrite WriteTokenFile = True"
| "isWrite e = False"

text \<open>
  \<open>fs.writeFileSync(this.tokenFile, JSON.stringify(this.tokens, null, 2))\<close>: the write
  throws, or token.json holds the in-memory map.
\<close>

definition writeFileSync :: "world \<Rightarrow> jsError option \<times> world" where
  "writeFileSync w =
     (case writeError w (length (filter isWrite (trace w))) of
        Some err \<Rightarrow> (Some err, emit WriteTokenFile w)
      | None \<Rightarrow> (None, emit WriteTokenFile (w\<lparr>tokenFile := SavedTokens (tokens w)\<rparr>)))"

definition saveToken :: "json \<Rightarrow> json \<Rightarrow> world \<Rightarrow> world" where
  "saveToken userId token w =
     (case writeFileSync (w\<lparr>tokens := (tokens w)(toPropertyKey w userId \<mapsto> token)\<rparr>) of
        (None, w1) \<Rightarrow> logger Info [T ''Token saved for user '', V userId] w1
      | (Some err, w1) \<Rightarrow> logger Error [T ''Error saving token: '', E err] w1)"

text \<open>\<open>Math.floor(DateTime.now().toSeconds())\<close>.\<close>

definition now :: "world \<Rightarrow> int" where
  "now w = clock w (length (trace w))"

text \<open>
  \<open>isExpired(token)\<close>. Everything thrown inside is caught, logged, and answered with
  \<open>true\<close>: \<open>token.split\<close> on a value that is not a string, \<open>Buffer.from\<close> on a
  missing middle segment, \<open>JSON.parse\<close>, \<open>.exp\<close> of \<open>null\<close>, and luxon's
  \<open>DateTime.fromSeconds\<close> on a value that is not a number.
\<close>

definition isExpired :: "json \<Rightarrow> world \<Rightarrow> bool \<times> world" where
  "isExpired token w =
     (let caught = (\<lambda>err. (True, logger Error [T ''Error checking token expiration: '', E err] w))
      in case token of
           JStr s \<Rightarrow>
             (case split s ''.'' of
                _ # segment # _ \<Rightarrow>
                  (case jsonParse w (base64Decode w segment) of
                     None \<Rightarrow> caught SyntaxError
                   | Some decodedPayload \<Rightarrow>
                       (case getProp decodedPayload ''exp'' of
                          Inl err \<Rightarrow> caught err
                        | Inr expiry \<Rightarrow>
                            (if truthy expiry then
                               (case expiry of
                                  JNum n \<Rightarrow>
                                    (of_int (now w) > n,
                                     logger Info [T ''Token expires on: '', V expiry] w)
                                | _ \<Rightarrow> caught InvalidArgumentError)
                             else (False,
                                   logger Warn
                                     [T ''Perpetual token, expiration time not readable''] w))))
              | _ \<Rightarrow> caught TypeError)
         | _ \<Rightarrow> caught TypeError)"

section \<open>QuestManager\<close>

text \<open>
  \<open>quests.filter((quest) => !quest.progress.claimed)\<close>: the callback throws on a quest
  that is \<open>null\<close> or has no \<open>progress\<close>, and then the whole filter does.
\<close>

fun filterUnclaimed :: "json list \<Rightarrow> jsError + json list" where
  "filterUnclaimed [] = Inr []"
| "filterUnclaimed (quest # rest) =
     (case getProp quest ''progress'' of
        Inl err \<Rightarrow> Inl err
      | Inr progress \<Rightarrow>
          (case getProp progress ''claimed'' of
             Inl err \<Rightarrow> Inl err
           | Inr claimed \<Rightarrow>
               (case filterUnclaimed rest of
                  Inl err \<Rightarrow> Inl err
                | Inr kept \<Rightarrow> Inr (if \<not> truthy claimed then quest # kept else kept))))"

definition getQuestsList :: "json \<Rightarrow> world \<Rightarrow> json list outcome \<times> world" where
  "getQuestsList token w =
     (case makeRequest (questsListRequest token) w of
        (Inl err, w1) \<Rightarrow> (Failure (E err), w1)
      | (Inr None, w1) \<Rightarrow> (Failure (E TypeError), w1)
      | (Inr (Some response), w1) \<Rightarrow>
          (if status response = 200 then
             (case getProp (body response) ''success'' of
                Inl err \<Rightarrow> (Failure (E err), w1)
              | Inr success \<Rightarrow>
                  (if truthy success then
                     (case member (body response) ''data'' of
                        JArr quests \<Rightarrow>
                          (case filterUnclaimed quests of
                             Inl err \<Rightarrow> (Failure (E err), w1)
                           | Inr kept \<Rightarrow> (Success kept, w1))
                      | _ \<Rightarrow> (Failure (E TypeError), w1))
                   else (Failure (T ''Failed to get quests list''), w1)))
           else (Failure (T ''Failed to get quests list''), w1)))"

text \<open>
  What \<open>completeQuest\<close> returns: \<open>{ success: true, data }\<close>,
  \<open>{ success: true, needsClaim: true }\<close> or \<open>{ success: false, error }\<close>.
\<close>

datatype completeResult = CompleteOk json | CompleteNeedsClaim | CompleteError part

definition completeQuest :: "json \<Rightarrow> json \<Rightarrow> world \<Rightarrow> completeResult \<times> world" where
  "completeQuest token questId w =
     (case makeRequest (completeRequest token questId) w of
        (Inl err, w1) \<Rightarrow> (CompleteError (E err), w1)
      | (Inr None, w1) \<Rightarrow> (CompleteError (E TypeError), w1)
      | (Inr (Some response), w1) \<Rightarrow>
          (if nullish (body response) then (CompleteError (E TypeError), w1)
           else
             let success = member (body response) ''success'';
                 dat = member (body response) ''data''
             in if (status response = 200 \<or> status response = 201) \<and> truthy success
                then (CompleteOk dat, w1)
                else if (status response = 200 \<or> status response = 201) \<and> dat = JBool True
                then (CompleteNeedsClaim,
                      logger Info
                        [T ''Quest '', V questId, T '' not completed, proceeding to claim...''] w1)
                else (CompleteError (T ''Failed to complete quest''),
                      if dat = JBool False
                      then logger Warn
                             [T ''Requirements not met to complete quest '', V questId] w1
                      else w1)))"

definition claimQuest :: "json \<Rightarrow> json \<Rightarrow> json \<Rightarrow> world \<Rightarrow> unit outcome \<times> world" where
  "claimQuest token questId questData w =
     (case makeRequest (claimRequest token questId) w of
        (Inl err, w1) \<Rightarrow> (Failure (E err), w1)
      | (Inr None, w1) \<Rightarrow> (Failure (T ''Failed to claim quest reward''), w1)
      | (Inr (Some response), w1) \<Rightarrow>
          (case getProp questData ''rewards'' of
             Inl err \<Rightarrow> (Failure (E err), w1)
           | Inr rewards \<Rightarrow>
               (case index0 rewards of
                  Inl err \<Rightarrow> (Failure (E err), w1)
                | Inr first \<Rightarrow>
                    (case getProp first ''amount'' of
                       Inl err \<Rightarrow> (Failure (E err), w1)
                     | Inr reward \<Rightarrow>
                         (Success (),
                          logger Info
                            [T ''Successfully completed '', V (member questData ''title''),
                             T '' | Reward: '', V reward] w1)))))"

text \<open>\<open>processQuest(token, quest)\<close>: \<open>Some err\<close> when it throws, which only \<open>quest._id\<close> can.\<close>

definition processQuest :: "json \<Rightarrow> json \<Rightarrow> world \<Rightarrow> jsError option \<times> world" where
  "processQuest token quest w =
     (case getProp quest ''_id'' of
        Inl err \<Rightarrow> (Some err, w)
      | Inr questId \<Rightarrow>
          (case completeQuest token questId w of
             (CompleteError err, w1) \<Rightarrow>
               (None,
                logger Error
                  [T ''Error completing quest '', V (member quest ''title''), T '': '', err] w1)
           | (CompleteOk dat, w1) \<Rightarrow> (None, w1)
           | (CompleteNeedsClaim, w1) \<Rightarrow>
               (case claimQuest token questId quest w1 of
                  (Success u, w2) \<Rightarrow> (None, w2)
                | (Failure err, w2) \<Rightarrow>
                    (None,
                     logger Error
                       [T ''Error claiming quest reward '', V (member quest ''title''),
                        T '': '', err] w2))))"

text \<open>The \<open>for (const quest of questsResult.data)\<close> loop of \<open>processQuests\<close>.\<close>

fun questsLoop :: "json \<Rightarrow> json list \<Rightarrow> world \<Rightarrow> jsError option \<times> world" where
  "questsLoop token [] w = (None, w)"
| "questsLoop token (quest # rest) w =
     (case getProp quest ''title'' of
        Inl err \<Rightarrow> (Some err, w)
      | Inr title \<Rightarrow>
          (case processQuest token quest (logger Info [T ''Processing quest: '', V title] w) of
             (Some err, w1) \<Rightarrow> (Some err, w1)
           | (None, w1) \<Rightarrow> questsLoop token rest (sleep 2000 w1)))"

definition processQuests :: "json \<Rightarrow> world \<Rightarrow> world" where
  "processQuests token w =
     (case getQuestsList token w of
        (Failure err, w1) \<Rightarrow> logger Error [T ''Error getting quests list: '', err] w1
      | (Success quests, w1) \<Rightarrow>
          (case questsLoop token quests w1 of
             (None, w2) \<Rightarrow> w2
           | (Some err, w2) \<Rightarrow> logger Error [T ''Error processing quests: '', E err] w2))"

section \<open>PawsClient\<close>

text \<open>\<open>text.replace(/\r/g, "").split("\n").filter(Boolean)\<close>.\<close>

definition fileLines :: "string \<Rightarrow> string list" where
  "fileLines text =
     filter (\<lambda>line. line \<noteq> []) (split (filter (\<lambda>c. c \<noteq> CHR 0x0D) text) [CHR 0x0A])"

fun readFileSync :: "diskFile \<Rightarrow> jsError + string" where
  "readFileSync Missing = Inl (FsError ''ENOENT'')"
| "readFileSync (Unreadable err) = Inl err"
| "readFileSync (Content text) = Inr text"

definition loadWallets :: "world \<Rightarrow> string list \<times> world" where
  "loadWallets w =
     (case walletFile w of
        Missing \<Rightarrow> ([], w)
      | Unreadable err \<Rightarrow> ([], logger Error [T ''Error reading wallet file: '', E err] w)
      | Content text \<Rightarrow> (fileLines text, w))"

text \<open>\<open>new PawsClient()\<close>: the token cache and the wallet list are read once.\<close>

definition newPawsClient :: "world \<Rightarrow> world" where
  "newPawsClient w =
     (case loadTokens w of
        (loaded, w1) \<Rightarrow>
          (case loadWallets (w1\<lparr>tokens := loaded\<rparr>) of
             (ws, w2) \<Rightarrow> w2\<lparr>wallets := ws\<rparr>))"

definition validateWalletFile :: "world \<Rightarrow> (jsError + bool) \<times> world" where
  "validateWalletFile w =
     (case readFileSync (dataFile w) of
        Inl err \<Rightarrow> (Inl err, w)
      | Inr text \<Rightarrow>
          (if length (wallets w) \<noteq> length (fileLines text)
           then (Inr False,
                 logger Error
                   [T ''Mismatch between number of wallets ('',
                    V (JNum (of_nat (length (wallets w)))),
                    T '') and data entries ('',
                    V (JNum (of_nat (length (fileLines text)))), T '')''] w)
           else (Inr True, w)))"

text \<open>
  The first statement of \<open>processAccount\<close>:
  \<open>JSON.parse(decodeURIComponent(accountData.split("user=")[1].split("&")[0]))\<close>,
  then \<open>userData.id\<close> and \<open>userData.first_name\<close>. It is not inside any \<open>try\<close>.
\<close>

definition parseAccount :: "world \<Rightarrow> string \<Rightarrow> jsError + json \<times> json" where
  "parseAccount w accountData =
     (case split accountData ''user='' of
        _ # rest # _ \<Rightarrow>
          (case split rest ''&'' of
             [] \<Rightarrow> Inl SyntaxError
           | encoded # _ \<Rightarrow>
               (case decodeURIComponent w encoded of
                  None \<Rightarrow> Inl URIError
                | Some text \<Rightarrow>
                    (case jsonParse w text of
                       None \<Rightarrow> Inl SyntaxError
                     | Some userData \<Rightarrow>
                         (if nullish userData then Inl TypeError
                          else Inr (member userData ''id'', member userData ''first_name'')))))
      | _ \<Rightarrow> Inl TypeError)"

text \<open>\<open>this.tokenManager.tokens[userId]\<close>.\<close>

definition cachedToken :: "world \<Rightarrow> json \<Rightarrow> json" where
  "cachedToken w userId =
     (case tokens w (toPropertyKey w userId) of None \<Rightarrow> JUndefined | Some cached \<Rightarrow> cached)"

text \<open>
  The condition \<open>!userToken || this.tokenManager.isExpired(userToken)\<close>: \<open>isExpired\<close>
  is only called on a truthy token.
\<close>

definition needsNewToken :: "json \<Rightarrow> world \<Rightarrow> bool \<times> world" where
  "needsNewToken userToken w = (if \<not> truthy userToken then (True, w) else isExpired userToken w)"

definition ensureValidToken :: "json \<Rightarrow> string \<Rightarrow> world \<Rightarrow> json \<times> world" where
  "ensureValidToken userId accountData w =
     (let userToken = cachedToken w userId
      in case needsNewToken userToken w of
           (False, w1) \<Rightarrow> (userToken, w1)
         | (True, w1) \<Rightarrow>
             (case authenticate accountData
                     (logger Warn [T ''New token needed for user '', V userId] w1) of
                (Failure err, w2) \<Rightarrow> (JNull, logger Error [T ''Login failed! '', err] w2)
              | (Success (token, p), w2) \<Rightarrow> (token, saveToken userId token w2)))"

definition ensureWalletLinked :: "json \<Rightarrow> json \<Rightarrow> world \<Rightarrow> world" where
  "ensureWalletLinked token walletAddress w =
     (case linkWallet token walletAddress w of
        ((success, err), w1) \<Rightarrow>
          (if truthy success
           then logger Info [T ''Successfully linked wallet: '', V walletAddress] w1
           else logger Error [T ''Error linking wallet: '', err] w1))"

text \<open>The lines \<open>processAccount\<close> logs at level info for a fetched profile.\<close>

definition accountInfo :: "profile \<Rightarrow> part list list" where
  "accountInfo userInfo =
     [[T ''=== Account Information ===''],
      [T ''Username: '', V (username userInfo)],
      [T ''Balance: '', V (balance userInfo)],
      [T ''=== Claim Streak Information ===''],
      [T ''Current Streak: '', V (currentStreak (claimStreak userInfo))],
      [T ''Last Claim: '', V (lastClaimDate (claimStreak userInfo))],
      [T ''=== Allocation Information ===''],
      [T ''Hamster:''],
      [T ''  > Initial: '', V (member (hamster (allocation userInfo)) ''initial'')],
      [T ''  > Converted: '', V (member (hamster (allocation userInfo)) ''converted'')],
      [T ''Telegram:''],
      [T ''  > Premium: '', V (member (telegram (allocation userInfo)) ''premium'')],
      [T ''  > Age: '', V (member (telegram (allocation userInfo)) ''age''), T '' days''],
      [T ''  > Year: '', V (member (telegram (allocation userInfo)) ''year'')],
      [T ''  > Converted: '', V (member (telegram (allocation userInfo)) ''converted'')],
      [T ''Paws:''],
      [T ''  > Converted: '', V (member (paws (allocation userInfo)) ''converted'')],
      [T ''Dogs:''],
      [T ''  > Initial: '', V (member (dogs (allocation userInfo)) ''initial'')],
      [T ''  > Converted: '', V (member (dogs (allocation userInfo)) ''converted'')],
      [T ''  > Percent: '', V (member (dogs (allocation userInfo)) ''percent''), T ''%''],
      [T ''Notcoin:''],
      [T ''  > Initial: '', V (member (notcoin (allocation userInfo)) ''initial'')],
      [T ''  > Converted: '', V (member (notcoin (allocation userInfo)) ''converted'')],
      [T ''  > Created At: '',
       V (if truthy (member (notcoin (allocation userInfo)) ''createAt'')
          then member (notcoin (allocation userInfo)) ''createAt'' else JStr ''N/A'')],
      [T ''Total Allocation: '', V (total (allocation userInfo))],
      [T ''=== Wallet Information ==='']]"

text \<open>\<open>processAccount(accountData, walletAddress)\<close>: \<open>Some err\<close> when it throws.\<close>

definition processAccount :: "string \<Rightarrow> json \<Rightarrow> world \<Rightarrow> jsError option \<times> world" where
  "processAccount accountData walletAddress w =
     (case parseAccount w accountData of
        Inl err \<Rightarrow> (Some err, w)
      | Inr (userId, firstName) \<Rightarrow>
          (case ensureValidToken userId accountData
                  (logger Info [T ''=== Processing account for '', V firstName, T '' ===''] w) of
             (token, w1) \<Rightarrow>
               (if \<not> truthy token then (None, w1)
                else
                  (case getUserInfo token w1 of
                     (Success userInfo, w2) \<Rightarrow>
                       (let w3 = fold (logger Info) (accountInfo userInfo) w2;
                            w4 = (if \<not> truthy (wallet userInfo)
                                  then ensureWalletLinked token walletAddress
                                         (logger Warn
                                           [T ''Account not linked to wallet. Starting linking process...'']
                                           w3)
                                  else logger Info [T ''Wallet Address: '', V (wallet userInfo)] w3)
                        in (None,
                            processQuests token
                              (logger Info [T ''=== Processing Quests ===''] w4)))
                   | (Failure err, w2) \<Rightarrow>
                       (None,
                        processQuests token
                          (logger Info [T ''=== Processing Quests ==='']
                            (logger Error [T ''Error getting user info: '', err] w2)))))))"

text \<open>\<open>countdown(seconds)\<close>: one line on the terminal and one second of sleep per step.\<close>

function countdownFrom :: "int \<Rightarrow> world \<Rightarrow> world" where
  "countdownFrom remainingTime w =
     (if remainingTime \<ge> 0
      then countdownFrom (remainingTime - 1) (sleep 1000 (emit Stdout (emit Stdout w)))
      else w)"
  by pat_completeness auto
termination
  by (relation "measure (\<lambda>(remainingTime, w). nat (remainingTime + 1))") auto

declare countdownFrom.simps [simp del]

definition countdown :: "int \<Rightarrow> world \<Rightarrow> world" where
  "countdown seconds w = emit Stdout (emit Stdout (countdownFrom seconds w))"

text \<open>
  The \<open>for (let i = 0; i < data.length; i++)\<close> loop of \<open>main\<close>; \<open>this.wallets[i]\<close> is
  \<open>undefined\<close> past the end of the list.
\<close>

function accountsFrom :: "string list \<Rightarrow> nat \<Rightarrow> world \<Rightarrow> jsError option \<times> world" where
  "accountsFrom dat i w =
     (if i < length dat then
        (case processAccount (dat ! i)
                (if i < length (wallets w) then JStr (wallets w ! i) else JUndefined) w of
           (Some err, w1) \<Rightarrow> (Some err, w1)
         | (None, w1) \<Rightarrow>
             accountsFrom dat (i + 1)
               (if int i < int (length dat) - 1 then sleep 1000 w1 else w1))
      else (None, w))"
  by pat_completeness auto
termination
  by (relation "measure (\<lambda>(dat, i, w). length dat - i)") auto

declare accountsFrom.simps [simp del]

text \<open>
  How a run ends: \<open>process.exit(code)\<close>, an exception that leaves \<open>main\<close>, or still
  running when the number of cycles looked at is used up (\<open>while (true)\<close> never ends by
  itself).
\<close>

datatype ending = Exit nat | Threw jsError | StillRunning

fun cycles :: "nat \<Rightarrow> string list \<Rightarrow> world \<Rightarrow> ending \<times> world" where
  "cycles 0 dat w = (StillRunning, w)"
| "cycles (Suc n) dat w =
     (case accountsFrom dat 0 (logger Info [T ''=== Starting New Cycle ===''] w) of
        (Some err, w1) \<Rightarrow> (Threw err, w1)
      | (None, w1) \<Rightarrow>
          cycles n dat (countdown (1440 * 60) (logger Info [T ''=== Cycle Completed ===''] w1)))"

text \<open>
  Modelled from the spec: config/banner.js is not among the sources. \<open>printBanner\<close> is
  display output only: it is recorded and does nothing else.
\<close>

definition printBanner :: "world \<Rightarrow> world" where
  "printBanner w = emit Banner w"

text \<open>\<open>main()\<close>, looking at no more than \<open>n\<close> cycles.\<close>

definition main :: "nat \<Rightarrow> world \<Rightarrow> ending \<times> world" where
  "main n w =
     (case validateWalletFile (printBanner w) of
        (Inl err, w1) \<Rightarrow> (Threw err, w1)
      | (Inr False, w1) \<Rightarrow> (Exit 1, w1)
      | (Inr True, w1) \<Rightarrow>
          (case readFileSync (dataFile w1) of
             Inl err \<Rightarrow> (Threw err, w1)
           | Inr text \<Rightarrow> cycles n (fileLines text) w1))"

text \<open>
  The last lines of the program:
  \<open>client.main().catch((err) => { logger.error(err.message); process.exit(1); })\<close>.
\<close>

definition start :: "nat \<Rightarrow> world \<Rightarrow> ending \<times> world" where
  "start n w =
     (case main n (newPawsClient w) of
        (Threw err, w1) \<Rightarrow> (Exit 1, logger Error [E err] w1)
      | (ended, w1) \<Rightarrow> (ended, w1))"

section \<open>Concrete worlds and messages used to state and test the properties\<close>

text \<open>The warning of \<open>makeRequest\<close> after a failed attempt, with the default arguments.\<close>

definition attemptFailed :: "nat \<Rightarrow> jsError \<Rightarrow> event" where
  "attemptFailed attempt err =
     Log Warn [T ''Attempt '', V (JNum (of_nat attempt)), T ''/'', V (JNum 3), T '' failed: '',
               E err, T ''. Retrying in '', V (JNum 5), T ''s...'']"

text \<open>
  A world with nothing on disk, in which every call of axios is rejected. Its library
  functions are placeholders: no run evaluated in this world, or in one that differs from
  it by the network only, calls them.
\<close>

definition quietWorld :: world where
  "quietWorld =
     \<lparr>trace = [], tokens = Map.empty, wallets = [], tokenFile = NoTokenFile,
      net = (\<lambda>n config. Reject (AxiosError ''Network Error'')),
      writeError = (\<lambda>n. None), clock = (\<lambda>n. 1700000000),
      dataFile = Missing, walletFile = Missing,
      jsonParse = (\<lambda>text. None), base64Decode = (\<lambda>text. []),
      decodeURIComponent = (\<lambda>text. None),
      toPropertyKey = (\<lambda>v. case v of JStr s \<Rightarrow> s | _ \<Rightarrow> [])\<rparr>"

definition okResponse :: response where
  "okResponse = \<lparr>status = 200, body = JObj [(''success'', JBool True)]\<rparr>"

text \<open>The service times out \<open>k\<close> times and answers from then on.\<close>

definition answerAfter :: "nat \<Rightarrow> world" where
  "answerAfter k =
     quietWorld\<lparr>net := (\<lambda>n config. if n < k then Reject (AxiosError ''timeout'')
                                   else Resolve okResponse)\<rparr>"

definition pingRequest :: request where
  "pingRequest =
     \<lparr>verb = ''get'', url = BASE_URL @ USER_INFO, bearer = None, payload = JUndefined\<rparr>"

text \<open>
  A raw profile of an account that has never claimed: no \<open>claimStreakData\<close>, and only
  part of \<open>allocationData\<close>.
\<close>

definition newAccountPayload :: json where
  "newAccountPayload =
     JObj [(''gameData'', JObj [(''balance'', JNum 100)]),
           (''userData'', JObj [(''username'', JStr ''ann''), (''firstname'', JStr ''Ann''),
                                (''wallet'', JStr ''UQC20'')]),
           (''allocationData'', JObj [(''hamster'', JObj [(''initial'', JNum 7), (''converted'', JNum 3)]),
                                      (''total'', JNum 3)])]"

text \<open>A raw profile with no \<open>dogs\<close> entry in its \<open>allocationData\<close>, and its normal form.\<close>

definition noDogsPayload :: json where
  "noDogsPayload =
     JObj [(''gameData'', JObj [(''balance'', JNum 5)]),
           (''userData'', JObj [(''username'', JStr ''bo''), (''firstname'', JStr ''Bo''),
                                (''wallet'', JNull)]),
           (''claimStreakData'', JObj [(''lastClaimDate'', JStr ''2024-11-02''),
                                       (''claimStreak'', JNum 4)]),
           (''allocationData'', JObj [(''paws'', JObj [(''converted'', JNum 9)])])]"

definition noDogsProfile :: profile where
  "noDogsProfile =
     \<lparr>balance = JNum 5, username = JStr ''bo'', firstname = JStr ''Bo'', wallet = JNull,
      claimStreak = \<lparr>lastClaimDate = JStr ''2024-11-02'', currentStreak = JNum 4\<rparr>,
      allocation = \<lparr>hamster = hamsterDefault, telegram = telegramDefault,
                    paws = JObj [(''converted'', JNum 9)], dogs = dogsDefault,
                    notcoin = notcoinDefault, total = JNum 0\<rparr>\<rparr>"

text \<open>
  What Node's library functions give on the strings used below: base64 decoding,
  \<open>JSON.parse\<close>, \<open>decodeURIComponent\<close>, and the property key of a number. The one
  string outside the tables that a run below hands to a library function is the empty
  string, to \<open>JSON.parse\<close>, which throws on it.
\<close>

definition base64Table :: \<open>(string \<times> string) list\<close> where
  \<open>base64Table =
     [(''eyJleHAiOjB9'', ''{"exp":0}''),
      (''eyJleHAiOjE3MDAwMDAwMDB9'', ''{"exp":1700000000}''),
      (''eyJleHAiOjE4MDAwMDAwMDB9'', ''{"exp":1800000000}''),
      (''eyJzdWIiOiI0MiJ9'', ''{"sub":"42"}''),
      (''bnVsbA'', ''null''),
      (''!!!'', '''')]\<close>

definition jsonTable :: \<open>(string \<times> json) list\<close> where
  \<open>jsonTable =
     [(''{"exp":0}'', JObj [(''exp'', JNum 0)]),
      (''{"exp":1700000000}'', JObj [(''exp'', JNum 1700000000)]),
      (''{"exp":1800000000}'', JObj [(''exp'', JNum 1800000000)]),
      (''{"sub":"42"}'', JObj [(''sub'', JStr ''42'')]),
      (''null'', JNull),
      (''{"id":42,"first_name":"Ann"}'', JObj [(''id'', JNum 42), (''first_name'', JStr ''Ann'')]),
      (''{"id":7,"first_name":"Bo"}'', JObj [(''id'', JNum 7), (''first_name'', JStr ''Bo'')])]\<close>

definition uriTable :: \<open>(string \<times> string) list\<close> where
  \<open>uriTable =
     [(''%7B%22id%22%3A42%2C%22first_name%22%3A%22Ann%22%7D'', ''{"id":42,"first_name":"Ann"}''),
      (''%7B%22id%22%3A7%2C%22first_name%22%3A%22Bo%22%7D'', ''{"id":7,"first_name":"Bo"}'')]\<close>

definition keyTable :: "(rat \<times> string) list" where
  "keyTable = [(42, ''42''), (7, ''7'')]"

text \<open>
  A world with that library and the clock at 1750000000; nothing on disk and no network.
\<close>

definition nodeWorld :: world where
  "nodeWorld =
     quietWorld\<lparr>
       clock := (\<lambda>n. 1750000000),
       jsonParse := map_of jsonTable,
       base64Decode := (\<lambda>text. case map_of base64Table text of Some s \<Rightarrow> s | None \<Rightarrow> []),
       decodeURIComponent := map_of uriTable,
       toPropertyKey := (\<lambda>v. case v of JStr s \<Rightarrow> s | JNum n \<Rightarrow> (case map_of keyTable n of Some k \<Rightarrow> k | None \<Rightarrow> ''NaN'')
                                 | _ \<Rightarrow> ''undefined'')\<rparr>"

text \<open>
  \<open>steps P w w'\<close>: the world \<open>w'\<close> is \<open>w\<close> after further events, each of which
  satisfies \<open>P\<close>; nothing but the trace has changed.
\<close>

definition steps :: "(event \<Rightarrow> bool) \<Rightarrow> world \<Rightarrow> world \<Rightarrow> bool" where
  "steps P w w' \<longleftrightarrow> (\<exists>evs. w' = w\<lparr>trace := trace w @ evs\<rparr> \<and> list_all P evs)"

text \<open>An event that is not a write of token.json, nor a call of axios other than \<open>config\<close>.\<close>

definition ownCall :: "request \<Rightarrow> event \<Rightarrow> bool" where
  "ownCall config e \<longleftrightarrow> (isHttp e \<longrightarrow> e = Http config) \<and> \<not> isWrite e"

text \<open>What the process does not change after start-up: the world without its mutable parts.\<close>

definition surroundings :: "world \<Rightarrow> world" where
  "surroundings w = w\<lparr>trace := [], tokens := Map.empty, tokenFile := NoTokenFile\<rparr>"

text \<open>An event that is neither a call of axios nor a write of token.json.\<close>

definition quiet :: "event \<Rightarrow> bool" where
  "quiet e \<longleftrightarrow> \<not> isHttp e \<and> \<not> isWrite e"

text \<open>
  A token valid until 1800000000, the answer of the service to a successful
  authentication, and worlds in which the service authenticates every account: one with
  a disk that takes writes and one where every write of token.json fails.
\<close>

definition freshToken :: json where
  "freshToken = JStr ''h.eyJleHAiOjE4MDAwMDAwMDB9.s''"

definition authOk :: response where
  "authOk =
     \<lparr>status = 201,
      body = JObj [(''success'', JBool True), (''data'', JArr [freshToken, noDogsPayload])]\<rparr>"

definition serviceWorld :: world where
  "serviceWorld =
     nodeWorld\<lparr>net := (\<lambda>n config. if url config = BASE_URL @ AUTH then Resolve authOk
                                  else Reject (AxiosError ''Network Error''))\<rparr>"

definition readOnlyDisk :: world where
  "readOnlyDisk = serviceWorld\<lparr>writeError := (\<lambda>n. Some (FsError ''EACCES''))\<rparr>"

text \<open>A well-formed credential blob, of the user with id 42.\<close>

definition annBlob :: string where
  "annBlob = ''user=%7B%22id%22%3A42%2C%22first_name%22%3A%22Ann%22%7D&hash=abc''"

text \<open>A world whose token cache holds the valid token of user 42.\<close>

definition cachedWorld :: world where
  "cachedWorld = nodeWorld\<lparr>tokens := [''42'' \<mapsto> freshToken]\<rparr>"

text \<open>The calls of the claim endpoint on the trace of a world.\<close>

fun isClaim :: "event \<Rightarrow> bool" where
  "isClaim (Http r) = (url r = BASE_URL @ QUEST_CLAIM)"
| "isClaim e = False"

definition claimCalls :: "world \<Rightarrow> event list" where
  "claimCalls w = filter isClaim (trace w)"

text \<open>An event that is no call of axios other than the two of \<open>processQuest\<close> for this quest id.\<close>

definition questCall :: "json \<Rightarrow> json \<Rightarrow> event \<Rightarrow> bool" where
  "questCall token questId e \<longleftrightarrow>
     (isHttp e \<longrightarrow> e = Http (completeRequest token questId) \<or> e = Http (claimRequest token questId))
     \<and> \<not> isWrite e"

text \<open>A quest that lists no reward, and one that lists a reward of 50.\<close>

definition noRewardQuest :: json where
  "noRewardQuest =
     JObj [(''_id'', JStr ''q0''), (''title'', JStr ''Welcome''), (''rewards'', JArr []),
           (''progress'', JObj [(''claimed'', JBool False)])]"

definition dailyQuest :: json where
  "dailyQuest =
     JObj [(''_id'', JStr ''q1''), (''title'', JStr ''Daily check-in''),
           (''rewards'', JArr [JObj [(''amount'', JNum 50)]]),
           (''progress'', JObj [(''claimed'', JBool False)])]"

text \<open>
  A service with three quests: q1 is recognized but unclaimed, q2 is already claimed,
  q3 has unmet requirements. It answers every request at the first attempt.
\<close>

definition claimedQuest :: json where
  "claimedQuest =
     JObj [(''_id'', JStr ''q2''), (''title'', JStr ''Join channel''),
           (''rewards'', JArr [JObj [(''amount'', JNum 10)]]),
           (''progress'', JObj [(''claimed'', JBool True)])]"

definition lockedQuest :: json where
  "lockedQuest =
     JObj [(''_id'', JStr ''q3''), (''title'', JStr ''Invite friends''),
           (''rewards'', JArr [JObj [(''amount'', JNum 500)]]),
           (''progress'', JObj [(''claimed'', JBool False)])]"

definition questsOk :: response where
  "questsOk =
     \<lparr>status = 200,
      body = JObj [(''success'', JBool True),
                   (''data'', JArr [dailyQuest, claimedQuest, lockedQuest])]\<rparr>"

definition needsClaimAnswer :: response where
  "needsClaimAnswer =
     \<lparr>status = 200, body = JObj [(''success'', JBool False), (''data'', JBool True)]\<rparr>"

definition notMetAnswer :: response where
  "notMetAnswer =
     \<lparr>status = 200, body = JObj [(''success'', JBool False), (''data'', JBool False)]\<rparr>"

definition questWorld :: world where
  "questWorld =
     nodeWorld\<lparr>net := (\<lambda>n config.
       if url config = BASE_URL @ QUESTS_LIST then Resolve questsOk
       else if url config = BASE_URL @ QUEST_COMPLETE then
         (if payload config = JObj [(''questId'', JStr ''q1'')] then Resolve needsClaimAnswer
          else Resolve notMetAnswer)
       else if url config = BASE_URL @ QUEST_CLAIM then Resolve okResponse
       else Reject (AxiosError ''Network Error''))\<rparr>"

text \<open>The quest id of a call of the completion endpoint.\<close>

fun completedId :: "event \<Rightarrow> json option" where
  "completedId (Http r) =
     (if url r = BASE_URL @ QUEST_COMPLETE then Some (member (payload r) ''questId'') else None)"
| "completedId e = None"

text \<open>\<open>quest.progress.claimed\<close>.\<close>

definition claimedOf :: "json \<Rightarrow> json" where
  "claimedOf quest = member (member quest ''progress'') ''claimed''"

text \<open>An event that, if it is a call of the completion endpoint, is for an unclaimed quest of the list.\<close>

definition forUnclaimed :: "json list \<Rightarrow> event \<Rightarrow> bool" where
  "forUnclaimed quests e \<longleftrightarrow>
     (case completedId e of
        None \<Rightarrow> True
      | Some questId \<Rightarrow>
          list_ex (\<lambda>quest. member quest ''_id'' = questId \<and> \<not> truthy (claimedOf quest)) quests)"

text \<open>The text of a file with the given lines.\<close>

definition fileOf :: "string list \<Rightarrow> string" where
  "fileOf ls = concat (map (\<lambda>l. l @ [CHR 0x0A]) ls)"

text \<open>A second well-formed credential blob, of the user with id 7.\<close>

definition boBlob :: string where
  "boBlob = ''user=%7B%22id%22%3A7%2C%22first_name%22%3A%22Bo%22%7D''"

text \<open>Three credential blobs and two wallet addresses.\<close>

definition mismatchWorld :: world where
  "mismatchWorld =
     serviceWorld\<lparr>
       dataFile := Content (fileOf [annBlob, boBlob, ''user=x'']),
       walletFile := Content (fileOf [''UQC20'', ''UQB71''])\<rparr>"

text \<open>
  Two accounts: the first blob has no \<open>user=\<close> part, the second is well-formed. The
  service would authenticate both.
\<close>

definition malformedWorld :: world where
  "malformedWorld =
     serviceWorld\<lparr>
       dataFile := Content (fileOf [''query_id=AAE1&hash=abc'', annBlob]),
       walletFile := Content (fileOf [''UQC20'', ''UQB71''])\<rparr>"

text \<open>The same two accounts in the other order.\<close>

definition lateMalformedWorld :: world where
  "lateMalformedWorld =
     serviceWorld\<lparr>
       dataFile := Content (fileOf [annBlob, ''query_id=AAE1&hash=abc'']),
       walletFile := Content (fileOf [''UQC20'', ''UQB71''])\<rparr>"

text \<open>
  A service that answers the completion of any quest with (200, success false, data true)
  and rejects every other call, the claim among them.
\<close>

definition claimDownWorld :: world where
  "claimDownWorld =
     nodeWorld\<lparr>net := (\<lambda>n config.
       if url config = BASE_URL @ QUEST_COMPLETE then Resolve needsClaimAnswer
       else Reject (AxiosError ''Network Error''))\<rparr>"

section \<open>Properties\<close>

subsection \<open>The trace and the frame\<close>

lemma emit_simps [simp]:
  "trace (emit e w) = trace w @ [e]"
  "tokens (emit e w) = tokens w"
  "wallets (emit e w) = wallets w"
  "tokenFile (emit e w) = tokenFile w"
  "net (emit e w) = net w"
  "writeError (emit e w) = writeError w"
  "clock (emit e w) = clock w"
  "dataFile (emit e w) = dataFile w"
  "walletFile (emit e w) = walletFile w"
  "jsonParse (emit e w) = jsonParse w"
  "base64Decode (emit e w) = base64Decode w"
  "decodeURIComponent (emit e w) = decodeURIComponent w"
  "toPropertyKey (emit e w) = toPropertyKey w"
  by (simp_all add: emit_def)

lemma httpCalls_emit [simp]:
  "httpCalls (emit e w) = httpCalls w @ (if isHttp e then [e] else [])"
  by (simp add: httpCalls_def)

subsection \<open>Transport\<close>

text \<open>The loop of \<open>makeRequest\<close> with the default arguments, written out attempt by attempt.\<close>

lemma makeRequest_unfold:
  "makeRequest config w =
    (case net w (length (httpCalls w)) config of
       Resolve r \<Rightarrow> (Inr (Some r), emit (Http config) w)
     | Reject e1 \<Rightarrow>
        (case net w (length (httpCalls w) + 1) config of
           Resolve r \<Rightarrow> (Inr (Some r),
              emit (Http config) (emit (Sleep 5000) (emit (attemptFailed 1 e1) (emit (Http config) w))))
         | Reject e2 \<Rightarrow>
            (case net w (length (httpCalls w) + 2) config of
               Resolve r \<Rightarrow> (Inr (Some r),
                 emit (Http config) (emit (Sleep 5000) (emit (attemptFailed 2 e2)
                  (emit (Http config) (emit (Sleep 5000) (emit (attemptFailed 1 e1) (emit (Http config) w)))))))
             | Reject e3 \<Rightarrow> (Inl e3,
                 emit (Http config) (emit (Sleep 5000) (emit (attemptFailed 2 e2)
                  (emit (Http config) (emit (Sleep 5000) (emit (attemptFailed 1 e1) (emit (Http config) w))))))))))"
  unfolding makeRequest_def
  apply (subst makeRequestFrom.simps)
  apply (subst makeRequestFrom.simps)
  apply (subst makeRequestFrom.simps)
  apply (simp add: axios_def logger_def sleep_def attemptFailed_def split: axiosResult.splits)
  done

text \<open>
  C8. \<open>makeRequest\<close> calls axios at least once and at most three times. The caller gets
  the response of the first attempt that resolves: of the first attempt with nothing
  logged; of the second after one warning and one sleep of 5000 ms; of the third, when
  the first two threw, after exactly two warnings, each followed by a sleep of 5000 ms.
  When the third attempt throws as well, its error is what \<open>makeRequest\<close> throws.
\<close>

theorem makeRequest_three_attempts:
  "length (httpCalls w) < length (httpCalls (snd (makeRequest config w)))
   \<and> length (httpCalls (snd (makeRequest config w))) \<le> length (httpCalls w) + 3
   \<and> (net w (length (httpCalls w)) config = Resolve r \<longrightarrow>
        makeRequest config w = (Inr (Some r), emit (Http config) w))
   \<and> (net w (length (httpCalls w)) config = Reject e1
        \<and> net w (length (httpCalls w) + 1) config = Resolve r \<longrightarrow>
        fst (makeRequest config w) = Inr (Some r)
        \<and> trace (snd (makeRequest config w)) =
            trace w @ [Http config, attemptFailed 1 e1, Sleep 5000, Http config])
   \<and> (net w (length (httpCalls w)) config = Reject e1
        \<and> net w (length (httpCalls w) + 1) config = Reject e2
        \<and> net w (length (httpCalls w) + 2) config = Resolve r \<longrightarrow>
        fst (makeRequest config w) = Inr (Some r)
        \<and> trace (snd (makeRequest config w)) =
            trace w @ [Http config, attemptFailed 1 e1, Sleep 5000,
                       Http config, attemptFailed 2 e2, Sleep 5000, Http config])
   \<and> (net w (length (httpCalls w)) config = Reject e1
        \<and> net w (length (httpCalls w) + 1) config = Reject e2
        \<and> net w (length (httpCalls w) + 2) config = Reject e3 \<longrightarrow>
        fst (makeRequest config w) = Inl e3
        \<and> trace (snd (makeRequest config w)) =
            trace w @ [Http config, attemptFailed 1 e1, Sleep 5000,
                       Http config, attemptFailed 2 e2, Sleep 5000, Http config])"
  by (simp add: makeRequest_unfold attemptFailed_def split: axiosResult.splits)

lemma answerAfter_net:
  "net (answerAfter k) n config =
     (if n < k then Reject (AxiosError ''timeout'') else Resolve okResponse)"
  "trace (answerAfter k) = []"
  "httpCalls (answerAfter k) = []"
  by (simp_all add: answerAfter_def quietWorld_def httpCalls_def)

theorem makeRequest_three_attempts_witness:
  "makeRequest pingRequest (answerAfter 0) = (Inr (Some okResponse), emit (Http pingRequest) (answerAfter 0))
   \<and> fst (makeRequest pingRequest (answerAfter 1)) = Inr (Some okResponse)
   \<and> trace (snd (makeRequest pingRequest (answerAfter 1))) =
        [Http pingRequest, attemptFailed 1 (AxiosError ''timeout''), Sleep 5000, Http pingRequest]
   \<and> fst (makeRequest pingRequest (answerAfter 2)) = Inr (Some okResponse)
   \<and> trace (snd (makeRequest pingRequest (answerAfter 2))) =
        [Http pingRequest, attemptFailed 1 (AxiosError ''timeout''), Sleep 5000,
         Http pingRequest, attemptFailed 2 (AxiosError ''timeout''), Sleep 5000, Http pingRequest]
   \<and> fst (makeRequest pingRequest (answerAfter 3)) = Inl (AxiosError ''timeout'')
   \<and> length (httpCalls (snd (makeRequest pingRequest (answerAfter 3)))) = 3"
proof -
  note a = answerAfter_net
  have "makeRequest pingRequest (answerAfter 0) = (Inr (Some okResponse), emit (Http pingRequest) (answerAfter 0))"
    using makeRequest_three_attempts [of "answerAfter 0" pingRequest okResponse] by (simp add: a)
  moreover have "fst (makeRequest pingRequest (answerAfter 1)) = Inr (Some okResponse)
      \<and> trace (snd (makeRequest pingRequest (answerAfter 1))) =
        [Http pingRequest, attemptFailed 1 (AxiosError ''timeout''), Sleep 5000, Http pingRequest]"
    using makeRequest_three_attempts [of "answerAfter 1" pingRequest okResponse "AxiosError ''timeout''"]
    by (simp add: a)
  moreover have "fst (makeRequest pingRequest (answerAfter 2)) = Inr (Some okResponse)
      \<and> trace (snd (makeRequest pingRequest (answerAfter 2))) =
        [Http pingRequest, attemptFailed 1 (AxiosError ''timeout''), Sleep 5000,
         Http pingRequest, attemptFailed 2 (AxiosError ''timeout''), Sleep 5000, Http pingRequest]"
    using makeRequest_three_attempts [of "answerAfter 2" pingRequest okResponse
        "AxiosError ''timeout''" "AxiosError ''timeout''"]
    by (simp add: a)
  moreover have "fst (makeRequest pingRequest (answerAfter 3)) = Inl (AxiosError ''timeout'')
      \<and> length (httpCalls (snd (makeRequest pingRequest (answerAfter 3)))) = 3"
    using makeRequest_three_attempts [of "answerAfter 3" pingRequest okResponse
        "AxiosError ''timeout''" "AxiosError ''timeout''" "AxiosError ''timeout''"]
    by (simp add: a httpCalls_def attemptFailed_def)
  ultimately show ?thesis by blast
qed

subsection \<open>Profile normalization\<close>

text \<open>
  C5, as stated, fails: a payload that \<open>extractUserData\<close> accepts and that has no
  \<open>claimStreakData\<close> gives a profile whose \<open>lastClaimDate\<close> and \<open>currentStreak\<close> are
  \<open>undefined\<close>, so \<open>wallet\<close> is not the only field that can be empty.
\<close>

theorem extractUserData_not_fully_populated:
  "extractUserData newAccountPayload =
     Inr \<lparr>balance = JNum 100, username = JStr ''ann'', firstname = JStr ''Ann'',
          wallet = JStr ''UQC20'',
          claimStreak = \<lparr>lastClaimDate = JUndefined, currentStreak = JUndefined\<rparr>,
          allocation = \<lparr>hamster = JObj [(''initial'', JNum 7), (''converted'', JNum 3)],
                        telegram = telegramDefault, paws = pawsDefault, dogs = dogsDefault,
                        notcoin = notcoinDefault, total = JNum 3\<rparr>\<rparr>"
  by (simp add: extractUserData_def newAccountPayload_def optChain_def orDefault_def)

lemma extractUserData_Inr:
  assumes "extractUserData userData = Inr p"
  shows "p = \<lparr>balance = member (member userData ''gameData'') ''balance'',
             username = member (member userData ''userData'') ''username'',
             firstname = member (member userData ''userData'') ''firstname'',
             wallet = member (member userData ''userData'') ''wallet'',
             claimStreak = \<lparr>
               lastClaimDate = optChain (member userData ''claimStreakData'') ''lastClaimDate'',
               currentStreak = optChain (member userData ''claimStreakData'') ''claimStreak'' \<rparr>,
             allocation = \<lparr>
               hamster = orDefault (optChain (member userData ''allocationData'') ''hamster'') hamsterDefault,
               telegram = orDefault (optChain (member userData ''allocationData'') ''telegram'') telegramDefault,
               paws = orDefault (optChain (member userData ''allocationData'') ''paws'') pawsDefault,
               dogs = orDefault (optChain (member userData ''allocationData'') ''dogs'') dogsDefault,
               notcoin = orDefault (optChain (member userData ''allocationData'') ''notcoin'') notcoinDefault,
               total = orDefault (optChain (member userData ''allocationData'') ''total'') (JNum 0) \<rparr> \<rparr>"
proof -
  have a: "\<not> nullish userData" using assms by (auto simp: extractUserData_def)
  have b: "\<not> nullish (member userData ''gameData'')"
    using assms a by (auto simp: extractUserData_def Let_def split: if_splits)
  have c: "\<not> nullish (member userData ''userData'')"
    using assms a b by (auto simp: extractUserData_def Let_def split: if_splits)
  show ?thesis using assms a b c by (simp add: extractUserData_def Let_def)
qed

lemma orDefault_not_nullish: "\<not> nullish d \<Longrightarrow> \<not> nullish (orDefault v d)"
  by (simp add: orDefault_def)

lemma orDefault_if: "orDefault v d = (if nullish v then d else v)"
  by (simp add: orDefault_def)

lemma optChain_present: "\<not> nullish (optChain v k) \<Longrightarrow> optChain v k = member v k"
  by (simp add: optChain_def split: if_splits)

text \<open>
  C5, amended. For every payload that \<open>extractUserData\<close> accepts, each of hamster,
  telegram, paws, dogs, notcoin and total that is absent from the payload (\<open>undefined\<close>
  or \<open>null\<close>, or \<open>allocationData\<close> itself absent) is replaced by its zero value, and one
  that is present is kept; so none of the six is ever \<open>null\<close> or \<open>undefined\<close>. The
  balance, username, firstname, wallet and the two claim-streak fields are copied from the
  payload as they are.
\<close>

theorem extractUserData_allocation_defaults:
  "extractUserData userData = Inr p \<Longrightarrow>
     hamster (allocation p) =
       (if nullish (optChain (member userData ''allocationData'') ''hamster'')
        then JObj [(''initial'', JNum 0), (''converted'', JNum 0)]
        else member (member userData ''allocationData'') ''hamster'')
   \<and> telegram (allocation p) =
       (if nullish (optChain (member userData ''allocationData'') ''telegram'')
        then JObj [(''premium'', JBool False), (''age'', JNum 0), (''year'', JNum 0),
                   (''converted'', JNum 0)]
        else member (member userData ''allocationData'') ''telegram'')
   \<and> paws (allocation p) =
       (if nullish (optChain (member userData ''allocationData'') ''paws'')
        then JObj [(''converted'', JNum 0)]
        else member (member userData ''allocationData'') ''paws'')
   \<and> dogs (allocation p) =
       (if nullish (optChain (member userData ''allocationData'') ''dogs'')
        then JObj [(''initial'', JNum 0), (''converted'', JNum 0), (''percent'', JNum 0)]
        else member (member userData ''allocationData'') ''dogs'')
   \<and> notcoin (allocation p) =
       (if nullish (optChain (member userData ''allocationData'') ''notcoin'')
        then JObj [(''initial'', JNum 0), (''converted'', JNum 0), (''createAt'', JNull)]
        else member (member userData ''allocationData'') ''notcoin'')
   \<and> total (allocation p) =
       (if nullish (optChain (member userData ''allocationData'') ''total'')
        then JNum 0
        else member (member userData ''allocationData'') ''total'')
   \<and> \<not> nullish (hamster (allocation p)) \<and> \<not> nullish (telegram (allocation p))
   \<and> \<not> nullish (paws (allocation p)) \<and> \<not> nullish (dogs (allocation p))
   \<and> \<not> nullish (notcoin (allocation p)) \<and> \<not> nullish (total (allocation p))
   \<and> balance p = member (member userData ''gameData'') ''balance''
   \<and> username p = member (member userData ''userData'') ''username''
   \<and> firstname p = member (member userData ''userData'') ''firstname''
   \<and> wallet p = member (member userData ''userData'') ''wallet''
   \<and> lastClaimDate (claimStreak p) =
       optChain (member userData ''claimStreakData'') ''lastClaimDate''
   \<and> currentStreak (claimStreak p) =
       optChain (member userData ''claimStreakData'') ''claimStreak''"
proof -
  assume acc: "extractUserData userData = Inr p"
  note p = extractUserData_Inr [OF acc]
  have d: "\<not> nullish hamsterDefault" "\<not> nullish telegramDefault" "\<not> nullish pawsDefault"
    "\<not> nullish dogsDefault" "\<not> nullish notcoinDefault" "\<not> nullish (JNum 0)"
    by (simp_all add: hamsterDefault_def telegramDefault_def pawsDefault_def dogsDefault_def
        notcoinDefault_def)
  have h: "hamster (allocation p) =
       (if nullish (optChain (member userData ''allocationData'') ''hamster'')
        then JObj [(''initial'', JNum 0), (''converted'', JNum 0)]
        else member (member userData ''allocationData'') ''hamster'')"
    by (subst p) (simp add: orDefault_if optChain_present hamsterDefault_def)
  have t: "telegram (allocation p) =
       (if nullish (optChain (member userData ''allocationData'') ''telegram'')
        then JObj [(''premium'', JBool False), (''age'', JNum 0), (''year'', JNum 0),
                   (''converted'', JNum 0)]
        else member (member userData ''allocationData'') ''telegram'')"
    by (subst p) (simp add: orDefault_if optChain_present telegramDefault_def)
  have pw: "paws (allocation p) =
       (if nullish (optChain (member userData ''allocationData'') ''paws'')
        then JObj [(''converted'', JNum 0)]
        else member (member userData ''allocationData'') ''paws'')"
    by (subst p) (simp add: orDefault_if optChain_present pawsDefault_def)
  have dg: "dogs (allocation p) =
       (if nullish (optChain (member userData ''allocationData'') ''dogs'')
        then JObj [(''initial'', JNum 0), (''converted'', JNum 0), (''percent'', JNum 0)]
        else member (member userData ''allocationData'') ''dogs'')"
    by (subst p) (simp add: orDefault_if optChain_present dogsDefault_def)
  have nc: "notcoin (allocation p) =
       (if nullish (optChain (member userData ''allocationData'') ''notcoin'')
        then JObj [(''initial'', JNum 0), (''converted'', JNum 0), (''createAt'', JNull)]
        else member (member userData ''allocationData'') ''notcoin'')"
    by (subst p) (simp add: orDefault_if optChain_present notcoinDefault_def)
  have tt: "total (allocation p) =
       (if nullish (optChain (member userData ''allocationData'') ''total'')
        then JNum 0
        else member (member userData ''allocationData'') ''total'')"
    by (subst p) (simp add: orDefault_if optChain_present)
  have nn: "\<not> nullish (hamster (allocation p)) \<and> \<not> nullish (telegram (allocation p))
   \<and> \<not> nullish (paws (allocation p)) \<and> \<not> nullish (dogs (allocation p))
   \<and> \<not> nullish (notcoin (allocation p)) \<and> \<not> nullish (total (allocation p))"
    by (subst p)+ (simp add: orDefault_not_nullish d)
  have rest: "balance p = member (member userData ''gameData'') ''balance''
   \<and> username p = member (member userData ''userData'') ''username''
   \<and> firstname p = member (member userData ''userData'') ''firstname''
   \<and> wallet p = member (member userData ''userData'') ''wallet''
   \<and> lastClaimDate (claimStreak p) =
       optChain (member userData ''claimStreakData'') ''lastClaimDate''
   \<and> currentStreak (claimStreak p) =
       optChain (member userData ''claimStreakData'') ''claimStreak''"
    by (subst p)+ simp
  from h t pw dg nc tt nn rest show ?thesis by blast
qed

theorem extractUserData_allocation_defaults_witness:
  "extractUserData noDogsPayload = Inr noDogsProfile
   \<and> dogs (allocation noDogsProfile) =
       JObj [(''initial'', JNum 0), (''converted'', JNum 0), (''percent'', JNum 0)]
   \<and> paws (allocation noDogsProfile) = JObj [(''converted'', JNum 9)]
   \<and> \<not> nullish (dogs (allocation noDogsProfile))
   \<and> wallet noDogsProfile = JNull"
proof -
  have e: "extractUserData noDogsPayload = Inr noDogsProfile"
    by (simp add: extractUserData_def noDogsPayload_def noDogsProfile_def optChain_def
        orDefault_def)
  from extractUserData_allocation_defaults [OF e] e show ?thesis
    by (simp add: noDogsPayload_def optChain_def)
qed

text \<open>
  The profile that \<open>authenticate\<close> or \<open>getUserInfo\<close> returns is what
  \<open>extractUserData\<close> made of the payload in the response, so the payloads they accept
  are the ones that \<open>extractUserData\<close> accepts.
\<close>

lemma authenticate_profile:
  "authenticate initData w = (Success (token, p), w') \<Longrightarrow>
   \<exists>response userData.
     makeRequest (authRequest initData) w = (Inr (Some response), w')
     \<and> destructure2 (member (body response) ''data'') = Inr (token, userData)
     \<and> extractUserData userData = Inr p"
  by (auto simp: authenticate_def split: prod.splits sum.splits option.splits if_splits)

lemma getUserInfo_profile:
  "getUserInfo token w = (Success p, w') \<Longrightarrow>
   \<exists>response.
     makeRequest (userInfoRequest token) w = (Inr (Some response), w')
     \<and> extractUserData (member (body response) ''data'') = Inr p"
  by (auto simp: getUserInfo_def split: prod.splits sum.splits option.splits if_splits)

subsection \<open>Token expiry\<close>

text \<open>
  C3, as stated, fails: the middle segment of this token decodes to \<open>{"exp":0}\<close>, the
  clock is past 0, and \<open>isExpired\<close> answers \<open>false\<close>, through the branch of the
  perpetual token.
\<close>

theorem isExpired_epoch_zero:
  "jsonParse nodeWorld (base64Decode nodeWorld ''eyJleHAiOjB9'') = Some (JObj [(''exp'', JNum 0)])
   \<and> now nodeWorld = 1750000000
   \<and> isExpired (JStr ''h.eyJleHAiOjB9.s'') nodeWorld =
       (False, logger Warn [T ''Perpetual token, expiration time not readable''] nodeWorld)"
  by (simp add: isExpired_def split_def nodeWorld_def quietWorld_def base64Table_def jsonTable_def
      now_def getProp_def)


text \<open>
  C3, amended. For a token whose middle segment decodes to a payload with a number other
  than 0 as \<open>exp\<close>, \<open>isExpired\<close> is true exactly when now is greater than \<open>exp\<close>. For a
  payload other than \<open>null\<close> with no \<open>exp\<close>, or with an \<open>exp\<close> that is falsy (0 among
  them), it is false. It is true when the middle segment is not JSON or is \<open>null\<close>, when
  the token has no second segment, and when the token is not a string.
\<close>

theorem isExpired_decides:
  "(split s ''.'' = h # seg # rest \<and> jsonParse w (base64Decode w seg) = Some d
      \<and> member d ''exp'' = JNum n \<and> n \<noteq> 0
      \<longrightarrow> fst (isExpired (JStr s) w) = (of_int (now w) > n))
   \<and> (split s ''.'' = h # seg # rest \<and> jsonParse w (base64Decode w seg) = Some d
      \<and> \<not> nullish d \<and> member d ''exp'' = JUndefined
      \<longrightarrow> fst (isExpired (JStr s) w) = False)
   \<and> (split s ''.'' = h # seg # rest \<and> jsonParse w (base64Decode w seg) = Some d
      \<and> \<not> nullish d \<and> \<not> truthy (member d ''exp'')
      \<longrightarrow> fst (isExpired (JStr s) w) = False)
   \<and> (split s ''.'' = h # seg # rest \<and> jsonParse w (base64Decode w seg) = None
      \<longrightarrow> fst (isExpired (JStr s) w) = True)
   \<and> (split s ''.'' = h # seg # rest \<and> jsonParse w (base64Decode w seg) = Some JNull
      \<longrightarrow> fst (isExpired (JStr s) w) = True)
   \<and> (length (split s ''.'') < 2 \<longrightarrow> fst (isExpired (JStr s) w) = True)
   \<and> ((\<forall>t. token \<noteq> JStr t) \<longrightarrow> fst (isExpired token w) = True)"
proof -
  have a: "split s ''.'' = h # seg # rest \<and> jsonParse w (base64Decode w seg) = Some d
      \<and> member d ''exp'' = JNum n \<and> n \<noteq> 0
      \<longrightarrow> fst (isExpired (JStr s) w) = (of_int (now w) > n)"
    by (cases d) (auto simp: isExpired_def getProp_def)
  have b: "split s ''.'' = h # seg # rest \<and> jsonParse w (base64Decode w seg) = Some d
      \<and> \<not> nullish d \<and> \<not> truthy (member d ''exp'')
      \<longrightarrow> fst (isExpired (JStr s) w) = False"
    by (auto simp: isExpired_def getProp_def)
  have c: "split s ''.'' = h # seg # rest \<and> jsonParse w (base64Decode w seg) = None
      \<longrightarrow> fst (isExpired (JStr s) w) = True"
    by (auto simp: isExpired_def)
  have d: "split s ''.'' = h # seg # rest \<and> jsonParse w (base64Decode w seg) = Some JNull
      \<longrightarrow> fst (isExpired (JStr s) w) = True"
    by (auto simp: isExpired_def getProp_def)
  have e: "length (split s ''.'') < 2 \<longrightarrow> fst (isExpired (JStr s) w) = True"
    by (auto simp: isExpired_def split: list.splits)
  have f: "(\<forall>t. token \<noteq> JStr t) \<longrightarrow> fst (isExpired token w) = True"
    by (cases token) (auto simp: isExpired_def)
  from a b c d e f show ?thesis by auto
qed

lemma nodeWorld_lib:
  "base64Decode nodeWorld text = (case map_of base64Table text of Some s \<Rightarrow> s | None \<Rightarrow> [])"
  "jsonParse nodeWorld = map_of jsonTable"
  "now nodeWorld = 1750000000"
  by (simp_all add: nodeWorld_def quietWorld_def now_def)

theorem isExpired_decides_witness:
  "fst (isExpired (JStr ''h.eyJleHAiOjE3MDAwMDAwMDB9.s'') nodeWorld) = True
   \<and> fst (isExpired (JStr ''h.eyJleHAiOjE4MDAwMDAwMDB9.s'') nodeWorld) = False
   \<and> fst (isExpired (JStr ''h.eyJzdWIiOiI0MiJ9.s'') nodeWorld) = False
   \<and> fst (isExpired (JStr ''h.!!!.s'') nodeWorld) = True
   \<and> fst (isExpired (JStr ''not-a-token'') nodeWorld) = True
   \<and> fst (isExpired JNull nodeWorld) = True
   \<and> fst (isExpired (JStr ''h.eyJleHAiOjB9.s'') nodeWorld) = False
   \<and> fst (isExpired (JStr ''h.bnVsbA.s'') nodeWorld) = True"
proof -
  have "fst (isExpired (JStr ''h.eyJleHAiOjE3MDAwMDAwMDB9.s'') nodeWorld) = True"
    using isExpired_decides [of "''h.eyJleHAiOjE3MDAwMDAwMDB9.s''" "''h''" "''eyJleHAiOjE3MDAwMDAwMDB9''"
        "[''s'']" nodeWorld "JObj [(''exp'', JNum 1700000000)]" 1700000000]
    by (simp add: split_def nodeWorld_lib base64Table_def jsonTable_def)
  moreover have "fst (isExpired (JStr ''h.eyJleHAiOjE4MDAwMDAwMDB9.s'') nodeWorld) = False"
    using isExpired_decides [of "''h.eyJleHAiOjE4MDAwMDAwMDB9.s''" "''h''" "''eyJleHAiOjE4MDAwMDAwMDB9''"
        "[''s'']" nodeWorld "JObj [(''exp'', JNum 1800000000)]" 1800000000]
    by (simp add: split_def nodeWorld_lib base64Table_def jsonTable_def)
  moreover have "fst (isExpired (JStr ''h.eyJzdWIiOiI0MiJ9.s'') nodeWorld) = False"
    using isExpired_decides [of "''h.eyJzdWIiOiI0MiJ9.s''" "''h''" "''eyJzdWIiOiI0MiJ9''"
        "[''s'']" nodeWorld "JObj [(''sub'', JStr ''42'')]"]
    by (simp add: split_def nodeWorld_lib base64Table_def jsonTable_def)
  moreover have "fst (isExpired (JStr ''h.!!!.s'') nodeWorld) = True"
    using isExpired_decides [of "''h.!!!.s''" "''h''" "''!!!''" "[''s'']" nodeWorld]
    by (simp add: split_def nodeWorld_lib base64Table_def jsonTable_def)
  moreover have "fst (isExpired (JStr ''not-a-token'') nodeWorld) = True"
    using isExpired_decides [of "''not-a-token''" _ _ _ nodeWorld]
    by (simp add: split_def)
  moreover have "fst (isExpired JNull nodeWorld) = True"
    using isExpired_decides [of _ _ _ _ nodeWorld _ _ JNull]
    by simp
  moreover have "fst (isExpired (JStr ''h.eyJleHAiOjB9.s'') nodeWorld) = False"
    using isExpired_decides [of "''h.eyJleHAiOjB9.s''" "''h''" "''eyJleHAiOjB9''"
        "[''s'']" nodeWorld "JObj [(''exp'', JNum 0)]"]
    by (simp add: split_def nodeWorld_lib base64Table_def jsonTable_def)
  moreover have "fst (isExpired (JStr ''h.bnVsbA.s'') nodeWorld) = True"
    using isExpired_decides [of "''h.bnVsbA.s''" "''h''" "''bnVsbA''" "[''s'']" nodeWorld]
    by (simp add: split_def nodeWorld_lib base64Table_def jsonTable_def)
  ultimately show ?thesis by blast
qed

subsection \<open>Functions that only add to the trace\<close>

lemma steps_refl [simp]: "steps P w w"
  unfolding steps_def by (rule exI [of _ "[]"]) simp

lemma steps_emit: "P e \<Longrightarrow> steps P w (emit e w)"
  unfolding steps_def emit_def by (rule exI [of _ "[e]"]) simp

lemma steps_trans: "steps P w w1 \<Longrightarrow> steps P w1 w2 \<Longrightarrow> steps P w w2"
  unfolding steps_def
  apply (elim exE conjE)
  subgoal for evs evs'
    by (rule exI [of _ "evs @ evs'"]) simp
  done

lemma steps_mono: "steps P w w' \<Longrightarrow> (\<And>e. P e \<Longrightarrow> Q e) \<Longrightarrow> steps Q w w'"
  unfolding steps_def by (auto simp: list_all_iff)

lemma steps_then_emit: "steps P w w1 \<Longrightarrow> P e \<Longrightarrow> steps P w (emit e w1)"
  by (blast intro: steps_trans steps_emit)

lemma steps_logger: "steps P w w1 \<Longrightarrow> P (Log lvl msg) \<Longrightarrow> steps P w (logger lvl msg w1)"
  unfolding logger_def by (rule steps_then_emit)

lemma steps_sleep: "steps P w w1 \<Longrightarrow> P (Sleep ms) \<Longrightarrow> steps P w (sleep ms w1)"
  unfolding sleep_def by (rule steps_then_emit)

lemma steps_fields:
  assumes "steps P w w'"
  shows "tokens w' = tokens w" "wallets w' = wallets w" "tokenFile w' = tokenFile w"
    "net w' = net w" "writeError w' = writeError w" "clock w' = clock w"
    "dataFile w' = dataFile w" "walletFile w' = walletFile w" "jsonParse w' = jsonParse w"
    "base64Decode w' = base64Decode w" "decodeURIComponent w' = decodeURIComponent w"
    "toPropertyKey w' = toPropertyKey w"
  using assms unfolding steps_def by auto

lemma steps_trace:
  "steps P w w' \<Longrightarrow> \<exists>evs. trace w' = trace w @ evs \<and> list_all P evs"
  unfolding steps_def by auto

lemma steps_filter:
  assumes "steps P w w'" and "\<And>e. P e \<Longrightarrow> \<not> Q e"
  shows "filter Q (trace w') = filter Q (trace w)"
proof -
  from steps_trace [OF assms(1)] obtain evs where
    t: "trace w' = trace w @ evs" and a: "list_all P evs" by blast
  have "filter Q evs = []" using a assms(2) by (auto simp: list_all_iff filter_empty_conv)
  with t show ?thesis by simp
qed

lemma makeRequest_steps: "steps (ownCall config) w (snd (makeRequest config w))"
  by (auto simp: makeRequest_unfold ownCall_def attemptFailed_def split: axiosResult.splits
           intro!: steps_then_emit)

lemma authenticate_world:
  "snd (authenticate initData w) = snd (makeRequest (authRequest initData) w)"
  by (auto simp: authenticate_def split: prod.splits sum.splits option.splits)

lemma authenticate_steps:
  "steps (ownCall (authRequest initData)) w (snd (authenticate initData w))"
  by (simp add: authenticate_world makeRequest_steps)

lemma getUserInfo_world:
  "snd (getUserInfo token w) = snd (makeRequest (userInfoRequest token) w)"
  by (auto simp: getUserInfo_def split: prod.splits sum.splits option.splits)

lemma linkWallet_world:
  "snd (linkWallet token wa w) = snd (makeRequest (walletRequest token wa) w)"
  by (auto simp: linkWallet_def split: prod.splits sum.splits option.splits)

lemma getQuestsList_world:
  "snd (getQuestsList token w) = snd (makeRequest (questsListRequest token) w)"
  by (auto simp: getQuestsList_def split: prod.splits sum.splits option.splits json.splits)

lemma isExpired_world:
  "\<exists>lvl msg. snd (isExpired token w) = logger lvl msg w"
  by (auto simp: isExpired_def split: json.splits list.splits option.splits sum.splits)

subsection \<open>Session manager and credential store\<close>

lemma isExpired_falsy: "\<not> truthy t \<Longrightarrow> fst (isExpired t w) = True"
  by (cases t) (auto simp: isExpired_def split_def)

lemma isExpired_steps: "steps quiet w (snd (isExpired token w))"
proof -
  from isExpired_world obtain lvl msg where "snd (isExpired token w) = logger lvl msg w" by blast
  then show ?thesis by (simp add: steps_logger quiet_def)
qed

lemma needsNewToken_steps: "steps quiet w (snd (needsNewToken t w))"
  by (simp add: needsNewToken_def isExpired_steps)

lemma needsNewToken_fst: "fst (needsNewToken t w) = fst (isExpired t w)"
  by (simp add: needsNewToken_def isExpired_falsy)

lemma needsNewToken_valid:
  "\<not> fst (isExpired t w) \<Longrightarrow> needsNewToken t w = (False, snd (isExpired t w))"
  using isExpired_falsy [of t w] by (cases "isExpired t w") (auto simp: needsNewToken_def)

lemma cachedToken_absent: "tokens w (toPropertyKey w userId) = None \<Longrightarrow> needsNewToken (cachedToken w userId) w = (True, w)"
  by (simp add: cachedToken_def needsNewToken_def)

lemma needsNewToken_renew:
  "tokens w (toPropertyKey w userId) = None
     \<or> (tokens w (toPropertyKey w userId) = Some t \<and> fst (isExpired t w))
   \<Longrightarrow> needsNewToken (cachedToken w userId) w = (True, snd (needsNewToken (cachedToken w userId) w))"
proof -
  assume a: "tokens w (toPropertyKey w userId) = None
     \<or> (tokens w (toPropertyKey w userId) = Some t \<and> fst (isExpired t w))"
  have "fst (needsNewToken (cachedToken w userId) w)"
    using a by (auto simp: needsNewToken_fst cachedToken_def isExpired_falsy)
  then show ?thesis by (cases "needsNewToken (cachedToken w userId) w") simp
qed

lemma steps_quiet_httpCalls: "steps quiet w w' \<Longrightarrow> httpCalls w' = httpCalls w"
  using steps_filter [of quiet w w' isHttp] by (auto simp: quiet_def httpCalls_def)

lemma steps_quiet_writes: "steps quiet w w' \<Longrightarrow> filter isWrite (trace w') = filter isWrite (trace w)"
  using steps_filter [of quiet w w' isWrite] by (auto simp: quiet_def)

lemma steps_ownCall_writes:
  "steps (ownCall config) w w' \<Longrightarrow> filter isWrite (trace w') = filter isWrite (trace w)"
  using steps_filter [of "ownCall config" w w' isWrite] by (auto simp: ownCall_def)

lemma makeRequest_calls:
  "length (httpCalls w) < length (httpCalls (snd (makeRequest config w)))"
  by (simp add: makeRequest_unfold attemptFailed_def split: axiosResult.splits)

lemma authenticate_calls:
  "length (httpCalls w) < length (httpCalls (snd (authenticate initData w)))"
  by (simp add: authenticate_world makeRequest_calls)

lemma saveToken_tokens:
  "tokens (saveToken userId token w) = (tokens w)(toPropertyKey w userId \<mapsto> token)"
  by (auto simp: saveToken_def writeFileSync_def logger_def split: option.splits)

lemma saveToken_failed:
  "writeError w (length (filter isWrite (trace w))) = Some err \<Longrightarrow>
   saveToken userId token w =
     logger Error [T ''Error saving token: '', E err]
       (emit WriteTokenFile (w\<lparr>tokens := (tokens w)(toPropertyKey w userId \<mapsto> token)\<rparr>))"
  by (simp add: saveToken_def writeFileSync_def)

lemma saveToken_written:
  "writeError w (length (filter isWrite (trace w))) = None \<Longrightarrow>
   saveToken userId token w =
     logger Info [T ''Token saved for user '', V userId]
       (emit WriteTokenFile
         (w\<lparr>tokens := (tokens w)(toPropertyKey w userId \<mapsto> token),
            tokenFile := SavedTokens ((tokens w)(toPropertyKey w userId \<mapsto> token))\<rparr>))"
  by (simp add: saveToken_def writeFileSync_def)

text \<open>Between the start of \<open>ensureValidToken\<close> and the answer of \<open>authenticate\<close>.\<close>

lemma renew_world:
  assumes "authenticate accountData
             (logger Warn msg (snd (needsNewToken c w))) = (r, w2)"
  shows "tokens w2 = tokens w" "toPropertyKey w2 = toPropertyKey w"
    "writeError w2 = writeError w" "tokenFile w2 = tokenFile w"
    "filter isWrite (trace w2) = filter isWrite (trace w)"
    "length (httpCalls w) < length (httpCalls w2)"
proof -
  let ?w1 = "snd (needsNewToken c w)"
  let ?w1' = "logger Warn msg ?w1"
  have s1: "steps quiet w ?w1'"
    by (rule steps_logger [OF needsNewToken_steps]) (simp add: quiet_def)
  have w2: "w2 = snd (authenticate accountData ?w1')" using assms by simp
  have s2: "steps (ownCall (authRequest accountData)) ?w1' w2"
    unfolding w2 by (rule authenticate_steps)
  show "tokens w2 = tokens w" using steps_fields(1) [OF s1] steps_fields(1) [OF s2] by simp
  show "toPropertyKey w2 = toPropertyKey w"
    using steps_fields(12) [OF s1] steps_fields(12) [OF s2] by simp
  show "writeError w2 = writeError w"
    using steps_fields(5) [OF s1] steps_fields(5) [OF s2] by simp
  show "tokenFile w2 = tokenFile w"
    using steps_fields(3) [OF s1] steps_fields(3) [OF s2] by simp
  show "filter isWrite (trace w2) = filter isWrite (trace w)"
    using steps_quiet_writes [OF s1] steps_ownCall_writes [OF s2] by simp
  show "length (httpCalls w) < length (httpCalls w2)"
    using authenticate_calls [of ?w1' accountData] steps_quiet_httpCalls [OF s1] by (simp add: w2)
qed

text \<open>
  C7. When the write of token.json throws, \<open>saveToken\<close> logs the error and returns: the
  in-memory map holds the new token under the key of the user id. \<open>ensureValidToken\<close>,
  having authenticated, still returns the new token, and the last things it did are the
  attempted write and the error log.
\<close>

theorem token_survives_failed_write:
  "(writeError w (length (filter isWrite (trace w))) = Some err \<longrightarrow>
      saveToken userId token w =
        logger Error [T ''Error saving token: '', E err]
          (emit WriteTokenFile (w\<lparr>tokens := (tokens w)(toPropertyKey w userId \<mapsto> token)\<rparr>))
      \<and> tokens (saveToken userId token w) (toPropertyKey w userId) = Some token)
   \<and> (fst (needsNewToken (cachedToken w userId) w)
      \<and> authenticate accountData
            (logger Warn [T ''New token needed for user '', V userId]
              (snd (needsNewToken (cachedToken w userId) w))) = (Success (token, p), w2)
      \<and> writeError w (length (filter isWrite (trace w))) = Some err \<longrightarrow>
      fst (ensureValidToken userId accountData w) = token
      \<and> tokens (snd (ensureValidToken userId accountData w)) (toPropertyKey w userId) = Some token
      \<and> trace (snd (ensureValidToken userId accountData w)) =
          trace w2 @ [WriteTokenFile, Log Error [T ''Error saving token: '', E err]])"
proof -
  have a: "writeError w (length (filter isWrite (trace w))) = Some err \<longrightarrow>
      saveToken userId token w =
        logger Error [T ''Error saving token: '', E err]
          (emit WriteTokenFile (w\<lparr>tokens := (tokens w)(toPropertyKey w userId \<mapsto> token)\<rparr>))
      \<and> tokens (saveToken userId token w) (toPropertyKey w userId) = Some token"
    by (simp add: saveToken_failed logger_def)
  have b: "fst (ensureValidToken userId accountData w) = token
      \<and> tokens (snd (ensureValidToken userId accountData w)) (toPropertyKey w userId) = Some token
      \<and> trace (snd (ensureValidToken userId accountData w)) =
          trace w2 @ [WriteTokenFile, Log Error [T ''Error saving token: '', E err]]"
    if n: "fst (needsNewToken (cachedToken w userId) w)"
      and au: "authenticate accountData
            (logger Warn [T ''New token needed for user '', V userId]
              (snd (needsNewToken (cachedToken w userId) w))) = (Success (token, p), w2)"
      and we: "writeError w (length (filter isWrite (trace w))) = Some err"
  proof -
    note r = renew_world [OF au]
    have n': "needsNewToken (cachedToken w userId) w = (True, snd (needsNewToken (cachedToken w userId) w))"
      using n by (cases "needsNewToken (cachedToken w userId) w") simp
    have e: "ensureValidToken userId accountData w = (token, saveToken userId token w2)"
      unfolding ensureValidToken_def Let_def by (subst n') (simp add: au)
    have we2: "writeError w2 (length (filter isWrite (trace w2))) = Some err"
      using we r by simp
    show ?thesis
      by (simp add: e saveToken_failed [OF we2] r logger_def)
  qed
  from a b show ?thesis by blast
qed

lemma extractUserData_noDogs: "extractUserData noDogsPayload = Inr noDogsProfile"
  by (simp add: extractUserData_def noDogsPayload_def noDogsProfile_def optChain_def
      orDefault_def)

lemma authenticate_ok:
  "net w (length (httpCalls w)) (authRequest d) = Resolve authOk \<Longrightarrow>
   authenticate d w = (Success (freshToken, noDogsProfile), emit (Http (authRequest d)) w)"
  by (simp add: authenticate_def makeRequest_unfold authOk_def getProp_def
      extractUserData_noDogs)

lemma serviceWorld_fields:
  "trace serviceWorld = []" "tokens serviceWorld = Map.empty"
  "net serviceWorld n config =
     (if url config = BASE_URL @ AUTH then Resolve authOk else Reject (AxiosError ''Network Error''))"
  "toPropertyKey serviceWorld (JNum 42) = ''42''"
  "writeError serviceWorld = (\<lambda>n. None)"
  "tokenFile serviceWorld = NoTokenFile"
  by (simp_all add: serviceWorld_def nodeWorld_def quietWorld_def keyTable_def)

lemma readOnlyDisk_fields:
  "trace readOnlyDisk = []" "tokens readOnlyDisk = Map.empty"
  "net readOnlyDisk = net serviceWorld"
  "toPropertyKey readOnlyDisk = toPropertyKey serviceWorld"
  "writeError readOnlyDisk n = Some (FsError ''EACCES'')"
  by (simp_all add: readOnlyDisk_def serviceWorld_fields)

theorem token_survives_failed_write_witness:
  "fst (ensureValidToken (JNum 42) annBlob readOnlyDisk) = freshToken
   \<and> tokens (snd (ensureValidToken (JNum 42) annBlob readOnlyDisk)) ''42'' = Some freshToken
   \<and> trace (snd (ensureValidToken (JNum 42) annBlob readOnlyDisk)) =
       [Log Warn [T ''New token needed for user '', V (JNum 42)], Http (authRequest annBlob),
        WriteTokenFile, Log Error [T ''Error saving token: '', E (FsError ''EACCES'')]]"
proof -
  let ?w = readOnlyDisk
  have c: "needsNewToken (cachedToken ?w (JNum 42)) ?w = (True, ?w)"
    by (simp add: cachedToken_def needsNewToken_def readOnlyDisk_fields)
  have au: "authenticate annBlob
            (logger Warn [T ''New token needed for user '', V (JNum 42)]
              (snd (needsNewToken (cachedToken ?w (JNum 42)) ?w)))
        = (Success (freshToken, noDogsProfile),
           emit (Http (authRequest annBlob))
             (logger Warn [T ''New token needed for user '', V (JNum 42)] ?w))"
    unfolding c snd_conv
    by (rule authenticate_ok)
       (simp add: logger_def readOnlyDisk_fields serviceWorld_fields authRequest_def)
  have we: "writeError ?w (length (filter isWrite (trace ?w))) = Some (FsError ''EACCES'')"
    by (simp add: readOnlyDisk_fields)
  from token_survives_failed_write [of ?w "FsError ''EACCES''" "JNum 42" freshToken annBlob
      noDogsProfile "emit (Http (authRequest annBlob))
             (logger Warn [T ''New token needed for user '', V (JNum 42)] ?w)"] c au we
  show ?thesis
    by (simp add: logger_def readOnlyDisk_fields serviceWorld_fields)
qed

text \<open>
  C6. With a cached token that \<open>isExpired\<close> reports valid, \<open>ensureValidToken\<close> returns
  it and calls axios not once. With no cached token, or one reported expired, it calls
  \<open>authenticate\<close> (at least one call of axios): when that fails it logs the reason and
  returns \<open>null\<close>, with the cache untouched; when it succeeds it returns the new token
  after \<open>saveToken\<close>, which puts it in the cache and, if the write goes through, into
  token.json. On a falsy token \<open>processAccount\<close> returns normally at once, so the
  loop over the accounts goes on.
\<close>

theorem ensureValidToken_contract:
  "(tokens w (toPropertyKey w userId) = Some t \<and> \<not> fst (isExpired t w) \<longrightarrow>
      ensureValidToken userId accountData w = (t, snd (isExpired t w))
      \<and> httpCalls (snd (isExpired t w)) = httpCalls w)
   \<and> ((tokens w (toPropertyKey w userId) = None
         \<or> (tokens w (toPropertyKey w userId) = Some t \<and> fst (isExpired t w)))
      \<and> authenticate accountData
            (logger Warn [T ''New token needed for user '', V userId]
              (snd (needsNewToken (cachedToken w userId) w))) = (Failure err, w2) \<longrightarrow>
      ensureValidToken userId accountData w =
        (JNull, logger Error [T ''Login failed! '', err] w2)
      \<and> tokens w2 = tokens w \<and> tokenFile w2 = tokenFile w
      \<and> length (httpCalls w) < length (httpCalls w2))
   \<and> ((tokens w (toPropertyKey w userId) = None
         \<or> (tokens w (toPropertyKey w userId) = Some t \<and> fst (isExpired t w)))
      \<and> authenticate accountData
            (logger Warn [T ''New token needed for user '', V userId]
              (snd (needsNewToken (cachedToken w userId) w))) = (Success (token, p), w2) \<longrightarrow>
      ensureValidToken userId accountData w = (token, saveToken userId token w2)
      \<and> tokens (saveToken userId token w2) = (tokens w)(toPropertyKey w userId \<mapsto> token)
      \<and> (writeError w (length (filter isWrite (trace w))) = None \<longrightarrow>
           tokenFile (saveToken userId token w2)
             = SavedTokens ((tokens w)(toPropertyKey w userId \<mapsto> token)))
      \<and> length (httpCalls w) < length (httpCalls w2))
   \<and> (parseAccount w accountData = Inr (userId, firstName)
      \<and> ensureValidToken userId accountData
            (logger Info [T ''=== Processing account for '', V firstName, T '' ===''] w)
          = (tok, w3)
      \<and> \<not> truthy tok \<longrightarrow>
      processAccount accountData walletAddress w = (None, w3))"
proof -
  let ?k = "toPropertyKey w userId"
  let ?renew = "tokens w ?k = None \<or> (tokens w ?k = Some t \<and> fst (isExpired t w))"
  let ?w1 = "snd (needsNewToken (cachedToken w userId) w)"
  let ?auth = "authenticate accountData (logger Warn [T ''New token needed for user '', V userId] ?w1)"
  have a: "ensureValidToken userId accountData w = (t, snd (isExpired t w))
      \<and> httpCalls (snd (isExpired t w)) = httpCalls w"
    if "tokens w ?k = Some t" "\<not> fst (isExpired t w)"
  proof -
    have c: "cachedToken w userId = t" using that by (simp add: cachedToken_def)
    have "ensureValidToken userId accountData w = (t, snd (isExpired t w))"
      by (simp add: ensureValidToken_def c needsNewToken_valid [OF that(2)])
    moreover have "httpCalls (snd (isExpired t w)) = httpCalls w"
      by (rule steps_quiet_httpCalls [OF isExpired_steps])
    ultimately show ?thesis by simp
  qed
  have b: "ensureValidToken userId accountData w =
        (JNull, logger Error [T ''Login failed! '', err] w2)
      \<and> tokens w2 = tokens w \<and> tokenFile w2 = tokenFile w
      \<and> length (httpCalls w) < length (httpCalls w2)"
    if r: ?renew and au: "?auth = (Failure err, w2)"
  proof -
    note n = needsNewToken_renew [OF r]
    have "ensureValidToken userId accountData w =
        (JNull, logger Error [T ''Login failed! '', err] w2)"
      unfolding ensureValidToken_def Let_def by (subst n) (simp add: au)
    then show ?thesis using renew_world [OF au] by simp
  qed
  have c: "ensureValidToken userId accountData w = (token, saveToken userId token w2)
      \<and> tokens (saveToken userId token w2) = (tokens w)(?k \<mapsto> token)
      \<and> (writeError w (length (filter isWrite (trace w))) = None \<longrightarrow>
           tokenFile (saveToken userId token w2) = SavedTokens ((tokens w)(?k \<mapsto> token)))
      \<and> length (httpCalls w) < length (httpCalls w2)"
    if r: ?renew and au: "?auth = (Success (token, p), w2)"
  proof -
    note n = needsNewToken_renew [OF r]
    note rw = renew_world [OF au]
    have e: "ensureValidToken userId accountData w = (token, saveToken userId token w2)"
      unfolding ensureValidToken_def Let_def by (subst n) (simp add: au)
    have t: "tokens (saveToken userId token w2) = (tokens w)(?k \<mapsto> token)"
      by (simp add: saveToken_tokens rw)
    have f: "tokenFile (saveToken userId token w2) = SavedTokens ((tokens w)(?k \<mapsto> token))"
      if "writeError w (length (filter isWrite (trace w))) = None"
    proof -
      have "writeError w2 (length (filter isWrite (trace w2))) = None" using that rw by simp
      from saveToken_written [OF this] show ?thesis by (simp add: rw logger_def)
    qed
    from e t f rw(6) show ?thesis by blast
  qed
  have d: "processAccount accountData walletAddress w = (None, w3)"
    if "parseAccount w accountData = Inr (userId, firstName)"
      "ensureValidToken userId accountData
            (logger Info [T ''=== Processing account for '', V firstName, T '' ===''] w)
          = (tok, w3)" "\<not> truthy tok"
    using that by (simp add: processAccount_def)
  from a b c d show ?thesis by blast
qed

lemma nodeWorld_fields:
  "trace nodeWorld = []" "tokens nodeWorld = Map.empty"
  "net nodeWorld n config = Reject (AxiosError ''Network Error'')"
  "toPropertyKey nodeWorld (JNum 42) = ''42''"
  "decodeURIComponent nodeWorld = map_of uriTable"
  by (simp_all add: nodeWorld_def quietWorld_def keyTable_def)

lemma authenticate_rejected:
  "(\<And>n. net w n (authRequest d) = Reject e) \<Longrightarrow> fst (authenticate d w) = Failure (E e)"
  by (simp add: authenticate_def makeRequest_unfold)

lemma parseAccount_ann: "parseAccount nodeWorld annBlob = Inr (JNum 42, JStr ''Ann'')"
  by (simp add: parseAccount_def annBlob_def split_def nodeWorld_fields nodeWorld_lib
      uriTable_def jsonTable_def)

lemma isExpired_fresh:
  "isExpired freshToken cachedWorld =
     (False, logger Info [T ''Token expires on: '', V (JNum 1800000000)] cachedWorld)"
  by (simp add: isExpired_def freshToken_def split_def cachedWorld_def nodeWorld_def
      quietWorld_def base64Table_def jsonTable_def getProp_def now_def logger_def emit_def)

theorem ensureValidToken_contract_witness:
  "ensureValidToken (JNum 42) annBlob cachedWorld =
     (freshToken, logger Info [T ''Token expires on: '', V (JNum 1800000000)] cachedWorld)
   \<and> httpCalls (logger Info [T ''Token expires on: '', V (JNum 1800000000)] cachedWorld) = []
   \<and> fst (ensureValidToken (JNum 42) annBlob nodeWorld) = JNull
   \<and> fst (ensureValidToken (JNum 42) annBlob serviceWorld) = freshToken
   \<and> tokens (snd (ensureValidToken (JNum 42) annBlob serviceWorld)) ''42'' = Some freshToken
   \<and> fst (processAccount annBlob (JStr ''UQC20'') nodeWorld) = None"
proof -
  have k: "toPropertyKey cachedWorld (JNum 42) = ''42''" "trace cachedWorld = []"
    "tokens cachedWorld ''42'' = Some freshToken"
    by (simp_all add: cachedWorld_def nodeWorld_fields)
  have a: "ensureValidToken (JNum 42) annBlob cachedWorld =
     (freshToken, logger Info [T ''Token expires on: '', V (JNum 1800000000)] cachedWorld)
     \<and> httpCalls (logger Info [T ''Token expires on: '', V (JNum 1800000000)] cachedWorld) = []"
    using ensureValidToken_contract [where w = cachedWorld and userId = "JNum 42"
        and t = freshToken and accountData = annBlob]
    by (simp add: k isExpired_fresh httpCalls_def)
  have b: "fst (ensureValidToken (JNum 42) annBlob w) = JNull"
    if n: "\<And>n config. net w n config = Reject (AxiosError ''Network Error'')"
      and t: "tokens w = Map.empty" for w
  proof -
    let ?w1 = "logger Warn [T ''New token needed for user '', V (JNum 42)]
              (snd (needsNewToken (cachedToken w (JNum 42)) w))"
    have s: "steps quiet w ?w1"
      by (rule steps_logger [OF needsNewToken_steps]) (simp add: quiet_def)
    have f: "fst (authenticate annBlob ?w1) = Failure (E (AxiosError ''Network Error''))"
      by (rule authenticate_rejected) (simp add: steps_fields(4) [OF s] n)
    have au: "authenticate annBlob ?w1 =
        (Failure (E (AxiosError ''Network Error'')), snd (authenticate annBlob ?w1))"
      using f by (cases "authenticate annBlob ?w1") simp
    from ensureValidToken_contract [where w = w and userId = "JNum 42" and accountData = annBlob
        and err = "E (AxiosError ''Network Error'')" and ?w2.0 = "snd (authenticate annBlob ?w1)"] au t
    show ?thesis by simp
  qed
  have c: "fst (ensureValidToken (JNum 42) annBlob serviceWorld) = freshToken
     \<and> tokens (snd (ensureValidToken (JNum 42) annBlob serviceWorld)) ''42'' = Some freshToken"
  proof -
    let ?w = serviceWorld
    have n: "needsNewToken (cachedToken ?w (JNum 42)) ?w = (True, ?w)"
      by (simp add: cachedToken_def needsNewToken_def serviceWorld_fields)
    have au: "authenticate annBlob
            (logger Warn [T ''New token needed for user '', V (JNum 42)]
              (snd (needsNewToken (cachedToken ?w (JNum 42)) ?w)))
        = (Success (freshToken, noDogsProfile),
           emit (Http (authRequest annBlob))
             (logger Warn [T ''New token needed for user '', V (JNum 42)] ?w))"
      unfolding n snd_conv
      by (rule authenticate_ok) (simp add: logger_def serviceWorld_fields authRequest_def)
    from ensureValidToken_contract [where w = ?w and userId = "JNum 42" and accountData = annBlob
        and token = freshToken and p = noDogsProfile
        and ?w2.0 = "emit (Http (authRequest annBlob))
             (logger Warn [T ''New token needed for user '', V (JNum 42)] ?w)"] au
    show ?thesis by (simp add: serviceWorld_fields)
  qed
  have d: "fst (processAccount annBlob (JStr ''UQC20'') nodeWorld) = None"
  proof -
    let ?w0 = "logger Info [T ''=== Processing account for '', V (JStr ''Ann''), T '' ===''] nodeWorld"
    have "fst (ensureValidToken (JNum 42) annBlob ?w0) = JNull"
      by (rule b) (simp_all add: logger_def nodeWorld_fields)
    then have e: "ensureValidToken (JNum 42) annBlob ?w0 =
        (JNull, snd (ensureValidToken (JNum 42) annBlob ?w0))"
      by (cases "ensureValidToken (JNum 42) annBlob ?w0") simp
    from ensureValidToken_contract [where w = nodeWorld and userId = "JNum 42"
        and accountData = annBlob and firstName = "JStr ''Ann''" and tok = JNull
        and ?w3.0 = "snd (ensureValidToken (JNum 42) annBlob ?w0)"
        and walletAddress = "JStr ''UQC20''"] parseAccount_ann e
    show ?thesis by simp
  qed
  from a b [of nodeWorld] c d show ?thesis by (simp add: nodeWorld_fields)
qed

subsection \<open>Quest engine\<close>

lemma completeQuest_world:
  "\<exists>w1. steps quiet (snd (makeRequest (completeRequest token questId) w)) w1
        \<and> snd (completeQuest token questId w) = w1"
  by (auto simp: completeQuest_def Let_def quiet_def split: prod.splits sum.splits option.splits
      intro!: steps_logger)

lemma claimQuest_world:
  "steps quiet (snd (makeRequest (claimRequest token questId) w))
     (snd (claimQuest token questId questData w))"
  by (auto simp: claimQuest_def quiet_def split: prod.splits sum.splits option.splits
      intro!: steps_logger)

lemma completeQuest_steps:
  "steps (questCall token questId) w (snd (completeQuest token questId w))"
proof -
  from completeQuest_world [of token questId w] have
    q: "steps quiet (snd (makeRequest (completeRequest token questId) w))
          (snd (completeQuest token questId w))" by simp
  have "steps (questCall token questId) w (snd (makeRequest (completeRequest token questId) w))"
    by (rule steps_mono [OF makeRequest_steps]) (auto simp: ownCall_def questCall_def)
  moreover have "steps (questCall token questId)
      (snd (makeRequest (completeRequest token questId) w)) (snd (completeQuest token questId w))"
    by (rule steps_mono [OF q]) (auto simp: quiet_def questCall_def)
  ultimately show ?thesis by (rule steps_trans)
qed

lemma claimQuest_steps:
  "steps (questCall token questId) w (snd (claimQuest token questId questData w))"
proof -
  have "steps (questCall token questId) w (snd (makeRequest (claimRequest token questId) w))"
    by (rule steps_mono [OF makeRequest_steps]) (auto simp: ownCall_def questCall_def)
  moreover have "steps (questCall token questId)
      (snd (makeRequest (claimRequest token questId) w))
      (snd (claimQuest token questId questData w))"
    by (rule steps_mono [OF claimQuest_world]) (auto simp: quiet_def questCall_def)
  ultimately show ?thesis by (rule steps_trans)
qed

text \<open>
  C2 says that \<open>claimQuest\<close> takes any truthy response as success and fails only when
  there is no response. Evaluated on a quest whose \<open>rewards\<close> list is empty, with the
  service answering the claim at the first attempt: \<open>questData.rewards[0].amount\<close>, read
  for the log line, throws inside the \<open>try\<close>, and \<open>claimQuest\<close> returns the failure
  of the \<open>catch\<close> although the response was there. A quest with a reward succeeds in
  the same world.
\<close>

theorem claimQuest_fails_without_reward:
  "net (answerAfter 0) (length (httpCalls (answerAfter 0))) (claimRequest freshToken (JStr ''q0''))
     = Resolve okResponse
   \<and> claimQuest freshToken (JStr ''q0'') noRewardQuest (answerAfter 0) =
       (Failure (E TypeError), emit (Http (claimRequest freshToken (JStr ''q0''))) (answerAfter 0))
   \<and> fst (claimQuest freshToken (JStr ''q1'') dailyQuest (answerAfter 0)) = Success ()"
  by (simp add: claimQuest_def makeRequest_unfold answerAfter_net noRewardQuest_def dailyQuest_def
      getProp_def)

lemma endpoints_differ [simp]:
  "QUEST_COMPLETE \<noteq> QUEST_CLAIM" "QUEST_CLAIM \<noteq> QUEST_COMPLETE"
  "QUESTS_LIST \<noteq> QUEST_CLAIM" "QUEST_CLAIM \<noteq> QUESTS_LIST"
  "QUESTS_LIST \<noteq> QUEST_COMPLETE" "QUEST_COMPLETE \<noteq> QUESTS_LIST"
  "AUTH \<noteq> QUEST_CLAIM" "AUTH \<noteq> QUEST_COMPLETE" "AUTH \<noteq> QUESTS_LIST"
  "QUEST_CLAIM \<noteq> AUTH" "QUEST_COMPLETE \<noteq> AUTH" "QUESTS_LIST \<noteq> AUTH"
  "USER_INFO \<noteq> QUEST_CLAIM" "USER_INFO \<noteq> QUEST_COMPLETE" "USER_INFO \<noteq> QUESTS_LIST"
  "USER_INFO \<noteq> AUTH" "WALLET \<noteq> QUEST_CLAIM" "WALLET \<noteq> QUEST_COMPLETE"
  by (simp_all add: QUEST_COMPLETE_def QUEST_CLAIM_def QUESTS_LIST_def AUTH_def USER_INFO_def
      WALLET_def)

lemma request_urls [simp]:
  "url (authRequest d) = BASE_URL @ AUTH"
  "url (userInfoRequest token) = BASE_URL @ USER_INFO"
  "url (walletRequest token wa) = BASE_URL @ WALLET"
  "url (questsListRequest token) = BASE_URL @ QUESTS_LIST"
  "url (completeRequest token questId) = BASE_URL @ QUEST_COMPLETE"
  "url (claimRequest token questId) = BASE_URL @ QUEST_CLAIM"
  "payload (completeRequest token questId) = JObj [(''questId'', questId)]"
  by (simp_all add: authRequest_def userInfoRequest_def walletRequest_def questsListRequest_def
      completeRequest_def claimRequest_def)

lemma claimCalls_emit [simp]:
  "claimCalls (emit e w) = claimCalls w @ (if isClaim e then [e] else [])"
  by (simp add: claimCalls_def)

lemma claimCalls_logger [simp]: "claimCalls (logger lvl msg w) = claimCalls w"
  by (simp add: logger_def)

lemma steps_no_claim:
  "steps P w w' \<Longrightarrow> (\<And>e. P e \<Longrightarrow> \<not> isClaim e) \<Longrightarrow> claimCalls w' = claimCalls w"
  unfolding claimCalls_def by (rule steps_filter)

lemma quiet_no_claim: "quiet e \<Longrightarrow> \<not> isClaim e"
  by (cases e) (auto simp: quiet_def)

lemma complete_no_claim: "ownCall (completeRequest token questId) e \<Longrightarrow> \<not> isClaim e"
  by (cases e) (auto simp: ownCall_def)

lemma completeQuest_no_claim: "claimCalls (snd (completeQuest token questId w)) = claimCalls w"
proof -
  from completeQuest_world [of token questId w] have
    q: "steps quiet (snd (makeRequest (completeRequest token questId) w))
          (snd (completeQuest token questId w))" by simp
  have "claimCalls (snd (makeRequest (completeRequest token questId) w)) = claimCalls w"
    by (rule steps_no_claim [OF makeRequest_steps complete_no_claim])
  moreover have "claimCalls (snd (completeQuest token questId w))
      = claimCalls (snd (makeRequest (completeRequest token questId) w))"
    by (rule steps_no_claim [OF q quiet_no_claim])
  ultimately show ?thesis by simp
qed

lemma makeRequest_claimCalls:
  "\<exists>k. 1 \<le> k \<and> k \<le> 3 \<and>
       claimCalls (snd (makeRequest (claimRequest token questId) w)) =
         claimCalls w @ replicate k (Http (claimRequest token questId))"
proof -
  let ?c = "Http (claimRequest token questId)"
  have c: "isClaim ?c" by simp
  have "claimCalls (snd (makeRequest (claimRequest token questId) w)) = claimCalls w @ replicate 1 ?c
      \<or> claimCalls (snd (makeRequest (claimRequest token questId) w)) = claimCalls w @ replicate 2 ?c
      \<or> claimCalls (snd (makeRequest (claimRequest token questId) w)) = claimCalls w @ replicate 3 ?c"
    by (simp add: makeRequest_unfold attemptFailed_def c numeral_2_eq_2 numeral_3_eq_3
        split: axiosResult.splits)
  then show ?thesis by (elim disjE) (rule exI [of _ 1], simp, rule exI [of _ 2], simp, rule exI [of _ 3], simp)
qed

lemma claimQuest_claimCalls:
  "\<exists>k. 1 \<le> k \<and> k \<le> 3 \<and>
       claimCalls (snd (claimQuest token questId questData w)) =
         claimCalls w @ replicate k (Http (claimRequest token questId))"
  using makeRequest_claimCalls [of token questId w]
    steps_no_claim [OF claimQuest_world [of token questId w questData] quiet_no_claim]
  by simp

lemma claimQuest_first_attempt:
  "net w (length (httpCalls w)) (claimRequest token questId) = Resolve r \<Longrightarrow>
   claimCalls (snd (claimQuest token questId questData w)) =
     claimCalls w @ [Http (claimRequest token questId)]"
  using steps_no_claim [OF claimQuest_world [of token questId w questData] quiet_no_claim]
  by (simp add: makeRequest_unfold)

text \<open>
  C4, amended. Let \<open>completeQuest\<close> receive a response for a quest. If its status is 200
  or 201, its success flag falsy and its data \<open>true\<close>, then \<open>processQuest\<close> is one call
  of \<open>claimQuest\<close> on the world that \<open>completeQuest\<close> left, followed by an error log
  only if that call failed: the claim endpoint is called for this quest by one run of
  \<open>makeRequest\<close> (between one and three attempts, exactly one when the first attempt is
  answered). When the claim request is answered and the quest lists a first reward, the
  quest is Done: \<open>processQuest\<close> ends with the log line of the completed quest and logs
  no error. When the claim request throws, the quest is Failed: \<open>processQuest\<close> ends with
  the error log of the claim. If the data of the response to the completion is \<open>false\<close>,
  \<open>processQuest\<close> adds no call of the claim endpoint.
\<close>

theorem processQuest_claims_then_done:
  "getProp quest ''_id'' = Inr questId \<Longrightarrow>
   makeRequest (completeRequest token questId) w = (Inr (Some response), w1) \<Longrightarrow>
   ((status response = 200 \<or> status response = 201)
      \<and> \<not> truthy (member (body response) ''success'')
      \<and> member (body response) ''data'' = JBool True \<longrightarrow>
      processQuest token quest w =
        (None,
         case claimQuest token questId quest
                (logger Info [T ''Quest '', V questId, T '' not completed, proceeding to claim...'']
                   w1) of
           (Success u, w2) \<Rightarrow> w2
         | (Failure err, w2) \<Rightarrow>
             logger Error [T ''Error claiming quest reward '', V (member quest ''title''),
                           T '': '', err] w2)
      \<and> (\<exists>k. 1 \<le> k \<and> k \<le> 3 \<and>
             claimCalls (snd (processQuest token quest w)) =
               claimCalls w @ replicate k (Http (claimRequest token questId)))
      \<and> (net w (length (httpCalls w1)) (claimRequest token questId) = Resolve r \<longrightarrow>
             claimCalls (snd (processQuest token quest w)) =
               claimCalls w @ [Http (claimRequest token questId)])
      \<and> (makeRequest (claimRequest token questId)
             (logger Info [T ''Quest '', V questId, T '' not completed, proceeding to claim...'']
                w1) = (Inr (Some answer), w2)
           \<and> index0 (member quest ''rewards'') = Inr first \<and> \<not> nullish first \<longrightarrow>
             processQuest token quest w =
               (None,
                logger Info [T ''Successfully completed '', V (member quest ''title''),
                             T '' | Reward: '', V (member first ''amount'')] w2))
      \<and> (makeRequest (claimRequest token questId)
             (logger Info [T ''Quest '', V questId, T '' not completed, proceeding to claim...'']
                w1) = (Inl err, w2) \<longrightarrow>
             processQuest token quest w =
               (None,
                logger Error [T ''Error claiming quest reward '', V (member quest ''title''),
                              T '': '', E err] w2)))
   \<and> (member (body response) ''data'' = JBool False \<longrightarrow>
        claimCalls (snd (processQuest token quest w)) = claimCalls w)"
proof -
  assume id: "getProp quest ''_id'' = Inr questId"
    and mr: "makeRequest (completeRequest token questId) w = (Inr (Some response), w1)"
  let ?wq = "logger Info [T ''Quest '', V questId, T '' not completed, proceeding to claim...''] w1"
  let ?cl = "claimQuest token questId quest ?wq"
  let ?fin = "case ?cl of
           (Success u, w2) \<Rightarrow> w2
         | (Failure err, w2) \<Rightarrow>
             logger Error [T ''Error claiming quest reward '', V (member quest ''title''),
                           T '': '', err] w2"
  have nq: "\<not> nullish quest" using id by (auto simp: getProp_def split: if_splits)
  have w1: "w1 = snd (makeRequest (completeRequest token questId) w)" using mr by simp
  have s1: "steps (ownCall (completeRequest token questId)) w w1"
    unfolding w1 by (rule makeRequest_steps)
  have c1: "claimCalls w1 = claimCalls w"
    by (rule steps_no_claim [OF s1 complete_no_claim])
  have n1: "net w1 = net w" by (rule steps_fields(4) [OF s1])
  have A: "processQuest token quest w = (None, ?fin)
      \<and> (\<exists>k. 1 \<le> k \<and> k \<le> 3 \<and>
             claimCalls (snd (processQuest token quest w)) =
               claimCalls w @ replicate k (Http (claimRequest token questId)))
      \<and> (net w (length (httpCalls w1)) (claimRequest token questId) = Resolve r \<longrightarrow>
             claimCalls (snd (processQuest token quest w)) =
               claimCalls w @ [Http (claimRequest token questId)])
      \<and> (makeRequest (claimRequest token questId) ?wq = (Inr (Some answer), w2)
           \<and> index0 (member quest ''rewards'') = Inr first \<and> \<not> nullish first \<longrightarrow>
             processQuest token quest w =
               (None,
                logger Info [T ''Successfully completed '', V (member quest ''title''),
                             T '' | Reward: '', V (member first ''amount'')] w2))
      \<and> (makeRequest (claimRequest token questId) ?wq = (Inl err, w2) \<longrightarrow>
             processQuest token quest w =
               (None,
                logger Error [T ''Error claiming quest reward '', V (member quest ''title''),
                              T '': '', E err] w2))"
    if st: "status response = 200 \<or> status response = 201"
      and su: "\<not> truthy (member (body response) ''success'')"
      and da: "member (body response) ''data'' = JBool True"
  proof -
    have nn: "\<not> nullish (body response)" using da by (cases "body response") auto
    have cq: "completeQuest token questId w = (CompleteNeedsClaim, ?wq)"
      using st su da nn by (simp add: completeQuest_def mr Let_def)
    have pq: "processQuest token quest w = (None, ?fin)"
      by (simp add: processQuest_def id cq split: prod.splits outcome.splits)
    have fin: "claimCalls ?fin = claimCalls (snd ?cl)"
      by (cases ?cl) (auto split: outcome.splits)
    have k: "\<exists>k. 1 \<le> k \<and> k \<le> 3 \<and>
             claimCalls (snd (processQuest token quest w)) =
               claimCalls w @ replicate k (Http (claimRequest token questId))"
      using claimQuest_claimCalls [of token questId quest ?wq] by (simp add: pq fin c1)
    have one: "claimCalls (snd (processQuest token quest w)) =
               claimCalls w @ [Http (claimRequest token questId)]"
      if "net w (length (httpCalls w1)) (claimRequest token questId) = Resolve r"
    proof -
      have "net ?wq (length (httpCalls ?wq)) (claimRequest token questId) = Resolve r"
        using that by (simp add: logger_def n1)
      from claimQuest_first_attempt [OF this, of quest] show ?thesis by (simp add: pq fin c1)
    qed
    have ok: "processQuest token quest w =
               (None,
                logger Info [T ''Successfully completed '', V (member quest ''title''),
                             T '' | Reward: '', V (member first ''amount'')] w2)"
      if m2: "makeRequest (claimRequest token questId) ?wq = (Inr (Some answer), w2)"
        and fr: "index0 (member quest ''rewards'') = Inr first" and nf: "\<not> nullish first"
    proof -
      have "?cl = (Success (),
                logger Info [T ''Successfully completed '', V (member quest ''title''),
                             T '' | Reward: '', V (member first ''amount'')] w2)"
        using nq fr nf by (simp add: claimQuest_def m2 getProp_def)
      then show ?thesis by (simp add: pq)
    qed
    have failed: "processQuest token quest w =
               (None,
                logger Error [T ''Error claiming quest reward '', V (member quest ''title''),
                              T '': '', E err] w2)"
      if m2: "makeRequest (claimRequest token questId) ?wq = (Inl err, w2)"
    proof -
      have "?cl = (Failure (E err), w2)" by (simp add: claimQuest_def m2)
      then show ?thesis by (simp add: pq)
    qed
    from pq k one ok failed show ?thesis by blast
  qed
  have B: "claimCalls (snd (processQuest token quest w)) = claimCalls w"
    if da: "member (body response) ''data'' = JBool False"
  proof -
    have ne: "fst (completeQuest token questId w) \<noteq> CompleteNeedsClaim"
      using da by (auto simp: completeQuest_def mr Let_def)
    have "claimCalls (snd (processQuest token quest w))
        = claimCalls (snd (completeQuest token questId w))"
      using ne
      by (cases "completeQuest token questId w")
         (auto simp: processQuest_def id split: completeResult.splits)
    then show ?thesis by (simp add: completeQuest_no_claim)
  qed
  from A B show ?thesis by blast
qed

lemma questWorld_fields:
  "trace questWorld = []" "httpCalls questWorld = []" "claimCalls questWorld = []"
  "net questWorld n config =
     (if url config = BASE_URL @ QUESTS_LIST then Resolve questsOk
       else if url config = BASE_URL @ QUEST_COMPLETE then
         (if payload config = JObj [(''questId'', JStr ''q1'')] then Resolve needsClaimAnswer
          else Resolve notMetAnswer)
       else if url config = BASE_URL @ QUEST_CLAIM then Resolve okResponse
       else Reject (AxiosError ''Network Error''))"
  by (simp_all add: questWorld_def nodeWorld_def quietWorld_def httpCalls_def claimCalls_def)

lemma questWorld_complete:
  "makeRequest (completeRequest token (JStr ''q1'')) questWorld =
     (Inr (Some needsClaimAnswer), emit (Http (completeRequest token (JStr ''q1''))) questWorld)"
  "makeRequest (completeRequest token (JStr ''q3'')) questWorld =
     (Inr (Some notMetAnswer), emit (Http (completeRequest token (JStr ''q3''))) questWorld)"
  by (simp_all add: makeRequest_unfold questWorld_fields)

lemma claimDownWorld_fields:
  "trace claimDownWorld = []" "httpCalls claimDownWorld = []" "claimCalls claimDownWorld = []"
  "net claimDownWorld n config =
     (if url config = BASE_URL @ QUEST_COMPLETE then Resolve needsClaimAnswer
      else Reject (AxiosError ''Network Error''))"
  by (simp_all add: claimDownWorld_def nodeWorld_def quietWorld_def httpCalls_def claimCalls_def)

lemma claimDownWorld_complete:
  "makeRequest (completeRequest token questId) claimDownWorld =
     (Inr (Some needsClaimAnswer), emit (Http (completeRequest token questId)) claimDownWorld)"
  by (simp add: makeRequest_unfold claimDownWorld_fields)

theorem processQuest_claims_then_done_witness:
  "trace (snd (processQuest freshToken dailyQuest questWorld)) =
     [Http (completeRequest freshToken (JStr ''q1'')),
      Log Info [T ''Quest '', V (JStr ''q1''), T '' not completed, proceeding to claim...''],
      Http (claimRequest freshToken (JStr ''q1'')),
      Log Info [T ''Successfully completed '', V (JStr ''Daily check-in''), T '' | Reward: '',
                V (JNum 50)]]
   \<and> claimCalls (snd (processQuest freshToken dailyQuest questWorld)) =
       [Http (claimRequest freshToken (JStr ''q1''))]
   \<and> last (trace (snd (processQuest freshToken dailyQuest claimDownWorld))) =
       Log Error [T ''Error claiming quest reward '', V (JStr ''Daily check-in''), T '': '',
                  E (AxiosError ''Network Error'')]
   \<and> claimCalls (snd (processQuest freshToken lockedQuest questWorld)) = []"
proof -
  let ?q1 = "JStr ''q1''"
  let ?wq = "logger Info [T ''Quest '', V ?q1, T '' not completed, proceeding to claim...'']
               (emit (Http (completeRequest freshToken ?q1)) questWorld)"
  let ?wd = "logger Info [T ''Quest '', V ?q1, T '' not completed, proceeding to claim...'']
               (emit (Http (completeRequest freshToken ?q1)) claimDownWorld)"
  have id1: "getProp dailyQuest ''_id'' = Inr ?q1"
    by (simp add: dailyQuest_def getProp_def)
  have h1: "(status needsClaimAnswer = 200 \<or> status needsClaimAnswer = 201)
      \<and> \<not> truthy (member (body needsClaimAnswer) ''success'')
      \<and> member (body needsClaimAnswer) ''data'' = JBool True"
    by (simp add: needsClaimAnswer_def)
  have n1: "net questWorld
      (length (httpCalls (emit (Http (completeRequest freshToken ?q1)) questWorld)))
      (claimRequest freshToken ?q1) = Resolve okResponse"
    by (simp add: questWorld_fields)
  have m2: "makeRequest (claimRequest freshToken ?q1) ?wq
      = (Inr (Some okResponse), emit (Http (claimRequest freshToken ?q1)) ?wq)
      \<and> index0 (member dailyQuest ''rewards'') = Inr (JObj [(''amount'', JNum 50)])
      \<and> \<not> nullish (JObj [(''amount'', JNum 50)])"
    by (simp add: makeRequest_unfold questWorld_fields logger_def dailyQuest_def)
  note a = processQuest_claims_then_done [OF id1 questWorld_complete(1),
      of freshToken okResponse okResponse "emit (Http (claimRequest freshToken ?q1)) ?wq"
         "JObj [(''amount'', JNum 50)]",
      THEN conjunct1, rule_format, OF h1]
  note once = a [THEN conjunct2, THEN conjunct2, THEN conjunct1, rule_format, OF n1]
  note finished = a [THEN conjunct2, THEN conjunct2, THEN conjunct2, THEN conjunct1,
      rule_format, OF m2]
  have t: "trace (snd (processQuest freshToken dailyQuest questWorld)) =
     [Http (completeRequest freshToken ?q1),
      Log Info [T ''Quest '', V ?q1, T '' not completed, proceeding to claim...''],
      Http (claimRequest freshToken ?q1),
      Log Info [T ''Successfully completed '', V (JStr ''Daily check-in''), T '' | Reward: '',
                V (JNum 50)]]"
    unfolding finished by (simp add: logger_def questWorld_fields dailyQuest_def)
  have m3: "makeRequest (claimRequest freshToken ?q1) ?wd
      = (Inl (AxiosError ''Network Error''), snd (makeRequest (claimRequest freshToken ?q1) ?wd))"
    by (simp add: makeRequest_unfold claimDownWorld_fields logger_def)
  note d = processQuest_claims_then_done [OF id1 claimDownWorld_complete,
      of freshToken okResponse okResponse "snd (makeRequest (claimRequest freshToken ?q1) ?wd)"
         "JObj [(''amount'', JNum 50)]" "AxiosError ''Network Error''",
      THEN conjunct1, rule_format, OF h1]
  note failed = d [THEN conjunct2, THEN conjunct2, THEN conjunct2, THEN conjunct2,
      rule_format, OF m3]
  have f: "last (trace (snd (processQuest freshToken dailyQuest claimDownWorld))) =
       Log Error [T ''Error claiming quest reward '', V (JStr ''Daily check-in''), T '': '',
                  E (AxiosError ''Network Error'')]"
    unfolding failed by (simp add: logger_def dailyQuest_def)
  have id3: "getProp lockedQuest ''_id'' = Inr (JStr ''q3'')"
    by (simp add: lockedQuest_def getProp_def)
  have h3: "member (body notMetAnswer) ''data'' = JBool False"
    by (simp add: notMetAnswer_def)
  note b = processQuest_claims_then_done [OF id3 questWorld_complete(2), of freshToken okResponse,
      THEN conjunct2, rule_format, OF h3]
  from t once f b show ?thesis by (simp add: questWorld_fields)
qed

text \<open>
  C4, as stated, fails: \<open>completeQuest\<close> receives (200, success false, data true),
  \<open>processQuest\<close> calls \<open>claimQuest\<close> once, the three attempts of its request are
  rejected, and the quest is not marked Done: the last thing done is the error log of the
  failed claim.
\<close>

theorem processQuest_claim_unanswered:
  "makeRequest (completeRequest freshToken (JStr ''q1'')) claimDownWorld =
     (Inr (Some needsClaimAnswer),
      emit (Http (completeRequest freshToken (JStr ''q1''))) claimDownWorld)
   \<and> status needsClaimAnswer = 200
   \<and> member (body needsClaimAnswer) ''success'' = JBool False
   \<and> member (body needsClaimAnswer) ''data'' = JBool True
   \<and> fst (processQuest freshToken dailyQuest claimDownWorld) = None
   \<and> trace (snd (processQuest freshToken dailyQuest claimDownWorld)) =
       [Http (completeRequest freshToken (JStr ''q1'')),
        Log Info [T ''Quest '', V (JStr ''q1''), T '' not completed, proceeding to claim...''],
        Http (claimRequest freshToken (JStr ''q1'')),
        attemptFailed 1 (AxiosError ''Network Error''), Sleep 5000,
        Http (claimRequest freshToken (JStr ''q1'')),
        attemptFailed 2 (AxiosError ''Network Error''), Sleep 5000,
        Http (claimRequest freshToken (JStr ''q1'')),
        Log Error [T ''Error claiming quest reward '', V (JStr ''Daily check-in''), T '': '',
                   E (AxiosError ''Network Error'')]]"
  by (simp add: claimDownWorld_complete processQuest_def completeQuest_def claimQuest_def
      dailyQuest_def getProp_def needsClaimAnswer_def makeRequest_unfold claimDownWorld_fields
      logger_def Let_def)

subsection \<open>Quest filtering\<close>

lemma filterUnclaimed_sound:
  "filterUnclaimed quests = Inr kept \<Longrightarrow>
   \<forall>q \<in> set kept. q \<in> set quests \<and> \<not> truthy (claimedOf q)"
proof (induction quests arbitrary: kept)
  case Nil
  then show ?case by simp
next
  case (Cons quest rest)
  from Cons.prems obtain kept' where
    r: "filterUnclaimed rest = Inr kept'"
    and k: "kept = (if \<not> truthy (claimedOf quest) then quest # kept' else kept')"
    by (auto simp: getProp_def claimedOf_def split: sum.splits if_splits)
  from Cons.IH [OF r] k show ?case by (auto split: if_splits)
qed

lemma questCall_completedId:
  "questCall token questId e \<Longrightarrow> completedId e = Some qid \<Longrightarrow> qid = questId"
  by (cases e) (auto simp: questCall_def split: if_splits)

lemma processQuest_steps:
  "steps (questCall token (member quest ''_id'')) w (snd (processQuest token quest w))"
proof (cases "nullish quest")
  case True
  then show ?thesis by (simp add: processQuest_def getProp_def)
next
  case False
  let ?id = "member quest ''_id''"
  let ?P = "questCall token ?id"
  have lg: "\<And>lvl msg. ?P (Log lvl msg)" by (simp add: questCall_def)
  have c: "steps ?P w (snd (completeQuest token ?id w))" by (rule completeQuest_steps)
  show ?thesis
  proof (cases "completeQuest token ?id w")
    case (Pair res w1)
    with c have c1: "steps ?P w w1" by simp
    show ?thesis
    proof (cases res)
      case (CompleteOk d)
      then show ?thesis using False Pair c1 by (simp add: processQuest_def getProp_def)
    next
      case CompleteNeedsClaim
      have "steps ?P w1 (snd (claimQuest token ?id quest w1))" by (rule claimQuest_steps)
      with c1 have c2: "steps ?P w (snd (claimQuest token ?id quest w1))" by (rule steps_trans)
      show ?thesis
        using False Pair CompleteNeedsClaim c2 lg
        by (cases "claimQuest token ?id quest w1")
           (auto simp: processQuest_def getProp_def split: outcome.splits intro!: steps_logger)
    next
      case (CompleteError err)
      then show ?thesis using False Pair c1 lg
        by (auto simp: processQuest_def getProp_def intro!: steps_logger)
    qed
  qed
qed

lemma processQuest_forUnclaimed:
  assumes "quest \<in> set quests" "\<not> truthy (claimedOf quest)"
  shows "steps (forUnclaimed quests) w (snd (processQuest token quest w))"
proof (rule steps_mono [OF processQuest_steps])
  fix e assume q: "questCall token (member quest ''_id'') e"
  show "forUnclaimed quests e"
  proof (cases "completedId e")
    case None
    then show ?thesis by (simp add: forUnclaimed_def)
  next
    case (Some qid)
    with questCall_completedId [OF q Some] assms show ?thesis
      by (auto simp: forUnclaimed_def list_ex_iff)
  qed
qed

lemma questsLoop_forUnclaimed:
  "\<forall>q \<in> set kept. q \<in> set quests \<and> \<not> truthy (claimedOf q) \<Longrightarrow>
   steps (forUnclaimed quests) w (snd (questsLoop token kept w))"
proof (induction kept arbitrary: w)
  case Nil
  then show ?case by simp
next
  case (Cons quest rest)
  let ?P = "forUnclaimed quests"
  have lg: "\<And>lvl msg. ?P (Log lvl msg)" "\<And>ms. ?P (Sleep ms)" by (simp_all add: forUnclaimed_def)
  show ?case
  proof (cases "nullish quest")
    case True
    then show ?thesis by (simp add: getProp_def)
  next
    case False
    let ?w0 = "logger Info [T ''Processing quest: '', V (member quest ''title'')] w"
    have s0: "steps ?P w ?w0" by (rule steps_logger) (simp_all add: lg)
    have "steps ?P ?w0 (snd (processQuest token quest ?w0))"
      using Cons.prems by (intro processQuest_forUnclaimed) auto
    with s0 have s1: "steps ?P w (snd (processQuest token quest ?w0))" by (rule steps_trans)
    show ?thesis
    proof (cases "processQuest token quest ?w0")
      case (Pair thrown w1)
      with s1 have s1': "steps ?P w w1" by simp
      show ?thesis
      proof (cases thrown)
        case None
        have s2: "steps ?P w (sleep 2000 w1)" by (rule steps_sleep [OF s1']) (simp add: lg)
        have "steps ?P (sleep 2000 w1) (snd (questsLoop token rest (sleep 2000 w1)))"
          using Cons.prems by (intro Cons.IH) auto
        with s2 have "steps ?P w (snd (questsLoop token rest (sleep 2000 w1)))"
          by (rule steps_trans)
        then show ?thesis using False Pair None by (simp add: getProp_def)
      next
        case (Some err)
        then show ?thesis using False Pair s1' by (simp add: getProp_def)
      qed
    qed
  qed
qed

lemma list_steps: "steps (forUnclaimed quests) w (snd (makeRequest (questsListRequest token) w))"
proof (rule steps_mono [OF makeRequest_steps])
  fix e assume "ownCall (questsListRequest token) e"
  then show "forUnclaimed quests e"
    by (cases e) (auto simp: ownCall_def forUnclaimed_def)
qed

lemma processQuests_forUnclaimed:
  assumes mr: "makeRequest (questsListRequest token) w = (Inr (Some response), w1)"
    and dat: "member (body response) ''data'' = JArr quests"
  shows "steps (forUnclaimed quests) w (processQuests token w)"
proof -
  let ?P = "forUnclaimed quests"
  have lg: "\<And>lvl msg. ?P (Log lvl msg)" by (simp add: forUnclaimed_def)
  have s1: "steps ?P w w1" using list_steps [of quests w token] mr by simp
  have gw: "snd (getQuestsList token w) = w1" by (simp add: getQuestsList_world mr)
  show ?thesis
  proof (cases "fst (getQuestsList token w)")
    case (Failure err)
    then have "processQuests token w = logger Error [T ''Error getting quests list: '', err] w1"
      using gw by (cases "getQuestsList token w") (simp add: processQuests_def)
    then show ?thesis using s1 lg by (simp add: steps_logger)
  next
    case (Success kept)
    then have g: "getQuestsList token w = (Success kept, w1)"
      using gw by (cases "getQuestsList token w") simp
    have f: "filterUnclaimed quests = Inr kept"
      using g dat
      by (auto simp: getQuestsList_def mr split: if_splits sum.splits)
    have "steps ?P w1 (snd (questsLoop token kept w1))"
      by (rule questsLoop_forUnclaimed [OF filterUnclaimed_sound [OF f]])
    with s1 have s2: "steps ?P w (snd (questsLoop token kept w1))" by (rule steps_trans)
    show ?thesis
      using s2 lg
      by (cases "questsLoop token kept w1")
         (auto simp: processQuests_def g split: option.splits intro!: steps_logger)
  qed
qed

text \<open>
  C10. Whatever list of quests the service returns, every call of the completion endpoint
  that \<open>processQuests\<close> makes carries the id of a quest of that list whose
  \<open>progress.claimed\<close> is falsy, hence not \<open>true\<close>, and \<open>false\<close> whenever it is a
  boolean.
\<close>

theorem only_unclaimed_quests_completed:
  "makeRequest (questsListRequest token) w = (Inr (Some response), w1) \<Longrightarrow>
   member (body response) ''data'' = JArr quests \<Longrightarrow>
   \<forall>e \<in> set (drop (length (trace w)) (trace (processQuests token w))).
     \<forall>questId. completedId e = Some questId \<longrightarrow>
       (\<exists>quest \<in> set quests.
          member quest ''_id'' = questId
          \<and> \<not> truthy (claimedOf quest)
          \<and> claimedOf quest \<noteq> JBool True
          \<and> ((\<exists>b. claimedOf quest = JBool b) \<longrightarrow> claimedOf quest = JBool False))"
proof -
  assume mr: "makeRequest (questsListRequest token) w = (Inr (Some response), w1)"
    and dat: "member (body response) ''data'' = JArr quests"
  from steps_trace [OF processQuests_forUnclaimed [OF mr dat]] obtain evs where
    t: "trace (processQuests token w) = trace w @ evs"
    and a: "list_all (forUnclaimed quests) evs" by blast
  have d: "drop (length (trace w)) (trace (processQuests token w)) = evs" by (simp add: t)
  show ?thesis
  proof (intro ballI allI impI)
    fix e questId
    assume e: "e \<in> set (drop (length (trace w)) (trace (processQuests token w)))"
      and c: "completedId e = Some questId"
    from e d a have "forUnclaimed quests e" by (auto simp: list_all_iff)
    with c obtain quest where q: "quest \<in> set quests" "member quest ''_id'' = questId"
      "\<not> truthy (claimedOf quest)"
      by (auto simp: forUnclaimed_def list_ex_iff)
    from q(3) have "claimedOf quest \<noteq> JBool True"
      "(\<exists>b. claimedOf quest = JBool b) \<longrightarrow> claimedOf quest = JBool False"
      by auto
    with q show "\<exists>quest \<in> set quests.
          member quest ''_id'' = questId
          \<and> \<not> truthy (claimedOf quest)
          \<and> claimedOf quest \<noteq> JBool True
          \<and> ((\<exists>b. claimedOf quest = JBool b) \<longrightarrow> claimedOf quest = JBool False)"
      by blast
  qed
qed

lemma questWorld_list:
  "makeRequest (questsListRequest token) questWorld =
     (Inr (Some questsOk), emit (Http (questsListRequest token)) questWorld)"
  by (simp add: makeRequest_unfold questWorld_fields)

lemma processQuests_questWorld:
  "trace (processQuests freshToken questWorld) =
     [Http (questsListRequest freshToken),
      Log Info [T ''Processing quest: '', V (JStr ''Daily check-in'')],
      Http (completeRequest freshToken (JStr ''q1'')),
      Log Info [T ''Quest '', V (JStr ''q1''), T '' not completed, proceeding to claim...''],
      Http (claimRequest freshToken (JStr ''q1'')),
      Log Info [T ''Successfully completed '', V (JStr ''Daily check-in''), T '' | Reward: '',
                V (JNum 50)],
      Sleep 2000,
      Log Info [T ''Processing quest: '', V (JStr ''Invite friends'')],
      Http (completeRequest freshToken (JStr ''q3'')),
      Log Warn [T ''Requirements not met to complete quest '', V (JStr ''q3'')],
      Log Error [T ''Error completing quest '', V (JStr ''Invite friends''), T '': '',
                 T ''Failed to complete quest''],
      Sleep 2000]"
  by (simp add: processQuests_def getQuestsList_def questWorld_list questsOk_def getProp_def
      dailyQuest_def claimedQuest_def lockedQuest_def processQuest_def completeQuest_def
      claimQuest_def makeRequest_unfold questWorld_fields needsClaimAnswer_def notMetAnswer_def
      logger_def sleep_def Let_def)

theorem only_unclaimed_quests_completed_witness:
  "Http (completeRequest freshToken (JStr ''q1''))
      \<in> set (drop (length (trace questWorld)) (trace (processQuests freshToken questWorld)))
   \<and> completedId (Http (completeRequest freshToken (JStr ''q1''))) = Some (JStr ''q1'')
   \<and> claimedOf dailyQuest = JBool False
   \<and> Http (completeRequest freshToken (JStr ''q2''))
      \<notin> set (drop (length (trace questWorld)) (trace (processQuests freshToken questWorld)))"
proof -
  have dat: "member (body questsOk) ''data'' = JArr [dailyQuest, claimedQuest, lockedQuest]"
    by (simp add: questsOk_def)
  note t = only_unclaimed_quests_completed [OF questWorld_list dat, of freshToken]
  have ids: "member dailyQuest ''_id'' = JStr ''q1''" "member claimedQuest ''_id'' = JStr ''q2''"
    "member lockedQuest ''_id'' = JStr ''q3''" "truthy (claimedOf claimedQuest)"
    "claimedOf dailyQuest = JBool False \<or> claimedOf dailyQuest = JBool True"
    by (simp_all add: dailyQuest_def claimedQuest_def lockedQuest_def claimedOf_def)
  have m: "Http (completeRequest freshToken (JStr ''q1''))
      \<in> set (drop (length (trace questWorld)) (trace (processQuests freshToken questWorld)))"
    by (simp add: processQuests_questWorld questWorld_fields)
  have c: "completedId (Http (completeRequest freshToken (JStr ''q1''))) = Some (JStr ''q1'')"
    by simp
  from t [rule_format, OF m c] ids have d: "claimedOf dailyQuest = JBool False"
    by auto
  have n: "Http (completeRequest freshToken (JStr ''q2''))
      \<notin> set (drop (length (trace questWorld)) (trace (processQuests freshToken questWorld)))"
  proof
    assume a: "Http (completeRequest freshToken (JStr ''q2''))
      \<in> set (drop (length (trace questWorld)) (trace (processQuests freshToken questWorld)))"
    have c2: "completedId (Http (completeRequest freshToken (JStr ''q2''))) = Some (JStr ''q2'')"
      by simp
    from t [rule_format, OF a c2] ids show False by auto
  qed
  from m c d n show ?thesis by blast
qed

subsection \<open>Orchestrator\<close>

lemma newPawsClient_wallets: "wallets (newPawsClient w) = fst (loadWallets w)"
  by (auto simp: newPawsClient_def loadTokens_def loadWallets_def logger_def emit_def
      split: tokenDisk.splits diskFile.splits prod.splits)

lemma newPawsClient_dataFile: "dataFile (newPawsClient w) = dataFile w"
  by (auto simp: newPawsClient_def loadTokens_def loadWallets_def logger_def emit_def
      split: tokenDisk.splits diskFile.splits prod.splits)

lemma newPawsClient_httpCalls: "httpCalls (newPawsClient w) = httpCalls w"
  by (auto simp: newPawsClient_def loadTokens_def loadWallets_def logger_def emit_def httpCalls_def
      split: tokenDisk.splits diskFile.splits prod.splits)

text \<open>
  C9. When data.txt can be read and the number of wallet addresses loaded at start-up
  differs from the number of credential blobs in it, the run ends with
  \<open>process.exit(1)\<close> however many cycles are looked at, axios has not been called, and
  all that happened after the construction of the client is the banner and the error log
  of the mismatch.
\<close>

theorem mismatch_refuses_to_start:
  "dataFile w = Content blobs \<Longrightarrow>
   length (fst (loadWallets w)) \<noteq> length (fileLines blobs) \<Longrightarrow>
   fst (start n w) = Exit 1
   \<and> httpCalls (snd (start n w)) = httpCalls w
   \<and> trace (snd (start n w)) =
       trace (newPawsClient w) @
       [Banner,
        Log Error [T ''Mismatch between number of wallets ('',
                   V (JNum (of_nat (length (fst (loadWallets w))))),
                   T '') and data entries ('',
                   V (JNum (of_nat (length (fileLines blobs)))), T '')'']]"
proof -
  assume d: "dataFile w = Content blobs"
    and m: "length (fst (loadWallets w)) \<noteq> length (fileLines blobs)"
  let ?c = "newPawsClient w"
  have v: "validateWalletFile (printBanner ?c) =
      (Inr False,
       logger Error [T ''Mismatch between number of wallets ('',
                   V (JNum (of_nat (length (fst (loadWallets w))))),
                   T '') and data entries ('',
                   V (JNum (of_nat (length (fileLines blobs)))), T '')''] (printBanner ?c))"
    using m by (simp add: validateWalletFile_def printBanner_def newPawsClient_dataFile d
        newPawsClient_wallets)
  have s: "start n w = (Exit 1,
       logger Error [T ''Mismatch between number of wallets ('',
                   V (JNum (of_nat (length (fst (loadWallets w))))),
                   T '') and data entries ('',
                   V (JNum (of_nat (length (fileLines blobs)))), T '')''] (printBanner ?c))"
    by (simp add: start_def main_def v)
  show ?thesis
    by (simp add: s logger_def printBanner_def newPawsClient_httpCalls)
qed

lemma mismatchWorld_files:
  "dataFile mismatchWorld = Content (fileOf [annBlob, boBlob, ''user=x''])"
  "fst (loadWallets mismatchWorld) = [''UQC20'', ''UQB71'']"
  "fileLines (fileOf [annBlob, boBlob, ''user=x'']) = [annBlob, boBlob, ''user=x'']"
  "httpCalls mismatchWorld = []"
  by (simp_all add: mismatchWorld_def loadWallets_def fileLines_def fileOf_def split_def
      annBlob_def boBlob_def httpCalls_def serviceWorld_fields)

theorem mismatch_refuses_to_start_witness:
  "length (fst (loadWallets mismatchWorld)) = 2
   \<and> length (fileLines (fileOf [annBlob, boBlob, ''user=x''])) = 3
   \<and> fst (start 1 mismatchWorld) = Exit 1
   \<and> httpCalls (snd (start 1 mismatchWorld)) = []"
  using mismatch_refuses_to_start [OF mismatchWorld_files(1), of 1]
  by (simp add: mismatchWorld_files)

lemma steps_surroundings: "steps P w w' \<Longrightarrow> surroundings w' = surroundings w"
  unfolding steps_def surroundings_def by auto

lemma surroundings_fields:
  assumes "surroundings w' = surroundings w"
  shows "wallets w' = wallets w" "net w' = net w" "writeError w' = writeError w"
    "clock w' = clock w" "dataFile w' = dataFile w" "walletFile w' = walletFile w"
    "jsonParse w' = jsonParse w" "base64Decode w' = base64Decode w"
    "decodeURIComponent w' = decodeURIComponent w" "toPropertyKey w' = toPropertyKey w"
proof -
  have "wallets (surroundings w') = wallets (surroundings w)"
    "net (surroundings w') = net (surroundings w)"
    "writeError (surroundings w') = writeError (surroundings w)"
    "clock (surroundings w') = clock (surroundings w)"
    "dataFile (surroundings w') = dataFile (surroundings w)"
    "walletFile (surroundings w') = walletFile (surroundings w)"
    "jsonParse (surroundings w') = jsonParse (surroundings w)"
    "base64Decode (surroundings w') = base64Decode (surroundings w)"
    "decodeURIComponent (surroundings w') = decodeURIComponent (surroundings w)"
    "toPropertyKey (surroundings w') = toPropertyKey (surroundings w)"
    using assms by simp_all
  then show "wallets w' = wallets w" "net w' = net w" "writeError w' = writeError w"
    "clock w' = clock w" "dataFile w' = dataFile w" "walletFile w' = walletFile w"
    "jsonParse w' = jsonParse w" "base64Decode w' = base64Decode w"
    "decodeURIComponent w' = decodeURIComponent w" "toPropertyKey w' = toPropertyKey w"
    by (simp_all add: surroundings_def)
qed

lemma surroundings_emit [simp]: "surroundings (emit e w) = surroundings w"
  by (simp add: surroundings_def emit_def)

lemma surroundings_logger [simp]: "surroundings (logger lvl msg w) = surroundings w"
  by (simp add: logger_def)

lemma surroundings_sleep [simp]: "surroundings (sleep ms w) = surroundings w"
  by (simp add: sleep_def)

lemma surroundings_saveToken [simp]: "surroundings (saveToken userId token w) = surroundings w"
  by (auto simp: saveToken_def writeFileSync_def surroundings_def logger_def emit_def
      split: option.splits)

lemma surroundings_makeRequest [simp]:
  "surroundings (snd (makeRequest config w)) = surroundings w"
  by (rule steps_surroundings [OF makeRequest_steps])

lemma surroundings_isExpired [simp]: "surroundings (snd (isExpired t w)) = surroundings w"
  by (rule steps_surroundings [OF isExpired_steps])

lemma surroundings_needsNewToken [simp]:
  "surroundings (snd (needsNewToken t w)) = surroundings w"
  by (rule steps_surroundings [OF needsNewToken_steps])

lemma surroundings_authenticate [simp]:
  "surroundings (snd (authenticate d w)) = surroundings w"
  by (simp add: authenticate_world)

lemma surroundings_ensureValidToken [simp]:
  "surroundings (snd (ensureValidToken userId accountData w)) = surroundings w"
proof -
  obtain expired w1 where n: "needsNewToken (cachedToken w userId) w = (expired, w1)"
    by (cases "needsNewToken (cachedToken w userId) w")
  have w1: "surroundings w1 = surroundings w"
    using surroundings_needsNewToken [of "cachedToken w userId" w] n by simp
  let ?w1' = "logger Warn [T ''New token needed for user '', V userId] w1"
  obtain res w2 where a: "authenticate accountData ?w1' = (res, w2)"
    by (cases "authenticate accountData ?w1'")
  have w2: "surroundings w2 = surroundings w"
    using surroundings_authenticate [of accountData ?w1'] a w1 by simp
  show ?thesis
    using w1 w2
    by (cases expired; cases res) (auto simp: ensureValidToken_def Let_def n a)
qed

lemma surroundings_fold_logger [simp]:
  "surroundings (fold (logger lvl) msgs w) = surroundings w"
  by (induction msgs arbitrary: w) simp_all

lemma surroundings_getUserInfo [simp]:
  "surroundings (snd (getUserInfo token w)) = surroundings w"
  by (simp add: getUserInfo_world)

lemma surroundings_ensureWalletLinked [simp]:
  "surroundings (ensureWalletLinked token wa w) = surroundings w"
proof -
  have "surroundings (snd (linkWallet token wa w)) = surroundings w"
    by (simp add: linkWallet_world)
  then show ?thesis
    by (cases "linkWallet token wa w") (auto simp: ensureWalletLinked_def)
qed

lemma surroundings_processQuest [simp]:
  "surroundings (snd (processQuest token quest w)) = surroundings w"
  by (rule steps_surroundings [OF processQuest_steps])

lemma surroundings_questsLoop [simp]:
  "surroundings (snd (questsLoop token quests w)) = surroundings w"
proof (induction quests arbitrary: w)
  case Nil
  then show ?case by simp
next
  case (Cons quest rest)
  let ?w0 = "logger Info [T ''Processing quest: '', V (member quest ''title'')] w"
  have p: "surroundings (snd (processQuest token quest ?w0)) = surroundings w" by simp
  show ?case
  proof (cases "processQuest token quest ?w0")
    case (Pair thrown w1)
    with p have w1: "surroundings w1 = surroundings w" by simp
    have "surroundings (snd (questsLoop token rest (sleep 2000 w1))) = surroundings w"
      using Cons.IH [of "sleep 2000 w1"] w1 by simp
    then show ?thesis using Pair w1
      by (cases thrown) (auto simp: getProp_def)
  qed
qed

lemma surroundings_processQuests [simp]:
  "surroundings (processQuests token w) = surroundings w"
proof -
  have g: "surroundings (snd (getQuestsList token w)) = surroundings w"
    by (simp add: getQuestsList_world)
  show ?thesis
  proof (cases "getQuestsList token w")
    case (Pair res w1)
    with g have w1: "surroundings w1 = surroundings w" by simp
    show ?thesis
    proof (cases res)
      case (Failure err)
      then show ?thesis using Pair w1 by (simp add: processQuests_def)
    next
      case (Success kept)
      have "surroundings (snd (questsLoop token kept w1)) = surroundings w" using w1 by simp
      then show ?thesis using Pair Success
        by (cases "questsLoop token kept w1") (auto simp: processQuests_def split: option.splits)
    qed
  qed
qed

lemma surroundings_processAccount [simp]:
  "surroundings (snd (processAccount accountData wa w)) = surroundings w"
proof (cases "parseAccount w accountData")
  case (Inl err)
  then show ?thesis by (simp add: processAccount_def)
next
  case (Inr parsed)
  obtain userId firstName where p: "parsed = (userId, firstName)" by (cases parsed)
  let ?w0 = "logger Info [T ''=== Processing account for '', V firstName, T '' ===''] w"
  obtain token w1 where e: "ensureValidToken userId accountData ?w0 = (token, w1)"
    by (cases "ensureValidToken userId accountData ?w0")
  have w1: "surroundings w1 = surroundings w"
    using surroundings_ensureValidToken [of userId accountData ?w0] e by simp
  obtain res w2 where g: "getUserInfo token w1 = (res, w2)" by (cases "getUserInfo token w1")
  have w2: "surroundings w2 = surroundings w"
    using surroundings_getUserInfo [of token w1] g w1 by simp
  show ?thesis
    using Inr p e g w1 w2
    by (cases res) (auto simp: processAccount_def Let_def)
qed

lemma parseAccount_surroundings:
  "surroundings w' = surroundings w \<Longrightarrow> parseAccount w' a = parseAccount w a"
proof -
  assume a: "surroundings w' = surroundings w"
  have "jsonParse w' = jsonParse w" "decodeURIComponent w' = decodeURIComponent w"
    using surroundings_fields [OF a] by simp_all
  then show ?thesis
    by (auto simp: parseAccount_def split: list.splits option.splits)
qed

lemma processAccount_malformed:
  "parseAccount w a = Inl err \<Longrightarrow> processAccount a wa w = (Some err, w)"
  by (simp add: processAccount_def)

lemma accountsFrom_stops:
  assumes i: "i < length dat" and bad: "parseAccount w0 (dat ! i) = Inl err"
  shows "surroundings w = surroundings w0 \<Longrightarrow> j \<le> i \<Longrightarrow>
         fst (accountsFrom dat j w) \<noteq> None
         \<and> accountsFrom dat j w = accountsFrom (take (Suc i) dat) j w"
proof (induction "i - j" arbitrary: j w)
  case 0
  then have j: "j = i" by simp
  have b: "parseAccount w (dat ! i) = Inl err"
    using parseAccount_surroundings [OF "0.prems"(1)] bad by simp
  have l: "accountsFrom dat i w = (Some err, w)"
    by (subst accountsFrom.simps) (simp add: i processAccount_malformed [OF b])
  have r: "accountsFrom (take (Suc i) dat) i w = (Some err, w)"
    using i by (subst accountsFrom.simps) (simp add: processAccount_malformed [OF b])
  show ?case unfolding j by (simp add: l r)
next
  case (Suc d)
  then have ji: "j < i" by simp
  obtain wa where wa: "(if j < length (wallets w) then JStr (wallets w ! j) else JUndefined) = wa"
    by simp
  obtain thrown w1 where p: "processAccount (dat ! j) wa w = (thrown, w1)"
    by (cases "processAccount (dat ! j) wa w")
  have w1: "surroundings w1 = surroundings w0"
    using surroundings_processAccount [of "dat ! j" wa w] p Suc.prems(1) by simp
  let ?w2 = "sleep 1000 w1"
  have ih: "fst (accountsFrom dat (j + 1) ?w2) \<noteq> None
         \<and> accountsFrom dat (j + 1) ?w2 = accountsFrom (take (Suc i) dat) (j + 1) ?w2"
  proof -
    have dj: "d = i - (j + 1)" using Suc.hyps(2) by simp
    have sw: "surroundings ?w2 = surroundings w0" using w1 by simp
    have le: "j + 1 \<le> i" using ji by simp
    from Suc.hyps(1) [OF dj sw le] show ?thesis .
  qed
  have l: "dat ! j = take (Suc i) dat ! j" using ji by simp
  show ?case
  proof (cases thrown)
    case None
    have a: "accountsFrom dat j w = accountsFrom dat (j + 1) ?w2"
      using ji i by (subst accountsFrom.simps) (simp add: wa p None)
    have b: "accountsFrom (take (Suc i) dat) j w = accountsFrom (take (Suc i) dat) (j + 1) ?w2"
      using ji i by (subst accountsFrom.simps) (simp add: wa p None)
    show ?thesis using ih unfolding a b by auto
  next
    case (Some e)
    have a: "accountsFrom dat j w = (Some e, w1)"
      using ji i by (subst accountsFrom.simps) (simp add: wa p Some)
    have b: "accountsFrom (take (Suc i) dat) j w = (Some e, w1)"
      using ji i by (subst accountsFrom.simps) (simp add: wa p Some)
    show ?thesis by (simp add: a b)
  qed
qed

lemma newPawsClient_library:
  "jsonParse (newPawsClient w) = jsonParse w"
  "decodeURIComponent (newPawsClient w) = decodeURIComponent w"
  by (auto simp: newPawsClient_def loadTokens_def loadWallets_def logger_def emit_def
      split: tokenDisk.splits diskFile.splits prod.splits)

lemma parseAccount_library:
  "jsonParse w' = jsonParse w \<Longrightarrow> decodeURIComponent w' = decodeURIComponent w \<Longrightarrow>
   parseAccount w' a = parseAccount w a"
  by (auto simp: parseAccount_def split: list.splits option.splits)

lemma main_valid:
  "validateWalletFile (printBanner c) = (Inr True, printBanner c) \<Longrightarrow>
   dataFile c = Content blobs \<Longrightarrow>
   main n c = cycles n (fileLines blobs) (printBanner c)"
  by (simp add: main_def) (simp add: printBanner_def)

lemma cycles_throw:
  "accountsFrom dat 0 (logger Info [T ''=== Starting New Cycle ===''] w) = (Some e, w1) \<Longrightarrow>
   cycles (Suc n) dat w = (Threw e, w1)"
  by simp

lemma start_throw:
  "main n (newPawsClient w) = (Threw e, w1) \<Longrightarrow>
   start n w = (Exit 1, logger Error [E e] w1)"
  by (simp add: start_def)

text \<open>
  C1, amended. For an account whose credential blob does not parse, \<open>processAccount\<close>
  throws before it logs or requests anything. Nothing in \<open>main\<close> catches it: when the
  two files match in length, the first cycle ends with the exception leaving \<open>main\<close>,
  the handler at the end of the program logs its message and the process exits with
  status 1. The loop over the accounts does exactly what it does on the batch cut after
  the malformed blob: the accounts after it are not processed.
\<close>

theorem malformed_blob_ends_the_run:
  "dataFile w = Content blobs \<Longrightarrow>
   length (fst (loadWallets w)) = length (fileLines blobs) \<Longrightarrow>
   i < length (fileLines blobs) \<Longrightarrow>
   parseAccount w (fileLines blobs ! i) = Inl err \<Longrightarrow>
   processAccount (fileLines blobs ! i) walletAddress w = (Some err, w)
   \<and> fst (start (Suc n) w) = Exit 1
   \<and> (\<exists>thrown. last (trace (snd (start (Suc n) w))) = Log Error [E thrown])
   \<and> accountsFrom (fileLines blobs) 0
        (logger Info [T ''=== Starting New Cycle ===''] (printBanner (newPawsClient w)))
      = accountsFrom (take (Suc i) (fileLines blobs)) 0
          (logger Info [T ''=== Starting New Cycle ===''] (printBanner (newPawsClient w)))"
proof -
  assume d: "dataFile w = Content blobs"
    and m: "length (fst (loadWallets w)) = length (fileLines blobs)"
    and i: "i < length (fileLines blobs)"
    and bad: "parseAccount w (fileLines blobs ! i) = Inl err"
  let ?dat = "fileLines blobs"
  let ?c = "newPawsClient w"
  let ?w0 = "logger Info [T ''=== Starting New Cycle ===''] (printBanner ?c)"
  have bad0: "parseAccount ?w0 (?dat ! i) = Inl err"
    using bad parseAccount_library [of ?w0 w "?dat ! i"]
    by (simp add: logger_def printBanner_def newPawsClient_library)
  have s: "fst (accountsFrom ?dat 0 ?w0) \<noteq> None
      \<and> accountsFrom ?dat 0 ?w0 = accountsFrom (take (Suc i) ?dat) 0 ?w0"
    by (rule accountsFrom_stops [OF i bad0]) simp_all
  note thr = s [THEN conjunct1] and cut = s [THEN conjunct2]
  from thr obtain e w1 where a: "accountsFrom ?dat 0 ?w0 = (Some e, w1)"
    by (cases "accountsFrom ?dat 0 ?w0") auto
  have v: "validateWalletFile (printBanner ?c) = (Inr True, printBanner ?c)"
    using m by (simp add: validateWalletFile_def printBanner_def newPawsClient_dataFile d
        newPawsClient_wallets)
  have dc: "dataFile ?c = Content blobs" by (simp add: newPawsClient_dataFile d)
  have mn: "main (Suc n) ?c = (Threw e, w1)"
    unfolding main_valid [OF v dc] by (rule cycles_throw [OF a])
  note st = start_throw [OF mn]
  have "last (trace (snd (start (Suc n) w))) = Log Error [E e]"
    by (simp add: st logger_def)
  then have ex: "\<exists>thrown. last (trace (snd (start (Suc n) w))) = Log Error [E thrown]" by blast
  from processAccount_malformed [OF bad] st ex cut show ?thesis by simp
qed

lemma malformedWorld_files:
  "dataFile malformedWorld = Content (fileOf [''query_id=AAE1&hash=abc'', annBlob])"
  "fst (loadWallets malformedWorld) = [''UQC20'', ''UQB71'']"
  "fileLines (fileOf [''query_id=AAE1&hash=abc'', annBlob]) = [''query_id=AAE1&hash=abc'', annBlob]"
  "trace malformedWorld = []" "tokenFile malformedWorld = NoTokenFile"
  "walletFile malformedWorld = Content (fileOf [''UQC20'', ''UQB71''])"
  "jsonParse malformedWorld = map_of jsonTable"
  "decodeURIComponent malformedWorld = map_of uriTable"
  by (simp_all add: malformedWorld_def loadWallets_def fileLines_def fileOf_def split_def
      annBlob_def serviceWorld_def nodeWorld_def quietWorld_def)

lemma parseAccount_no_user:
  "parseAccount w ''query_id=AAE1&hash=abc'' = Inl TypeError"
  by (simp add: parseAccount_def split_def)

text \<open>
  C1, as stated, fails: with a first blob that has no \<open>user=\<close> part and a second,
  well-formed one, the process exits with status 1 in its first cycle; the only things
  done are the banner, the log of the new cycle and the log of the TypeError. The second
  account is never processed.
\<close>

theorem malformed_blob_exits_process:
  "parseAccount malformedWorld ''query_id=AAE1&hash=abc'' = Inl TypeError
   \<and> parseAccount malformedWorld annBlob = Inr (JNum 42, JStr ''Ann'')
   \<and> fst (start 1 malformedWorld) = Exit 1
   \<and> trace (snd (start 1 malformedWorld)) =
       [Banner, Log Info [T ''=== Starting New Cycle ===''], Log Error [E TypeError]]"
proof -
  have p: "parseAccount malformedWorld annBlob = Inr (JNum 42, JStr ''Ann'')"
    using parseAccount_library [of malformedWorld nodeWorld annBlob]
    by (simp add: malformedWorld_files nodeWorld_lib nodeWorld_fields parseAccount_ann)
  let ?c = "malformedWorld\<lparr>tokens := Map.empty, wallets := [''UQC20'', ''UQB71'']\<rparr>"
  have c: "newPawsClient malformedWorld = ?c"
    using malformedWorld_files(2)
    by (simp add: newPawsClient_def loadTokens_def loadWallets_def malformedWorld_files)
  have v: "validateWalletFile (printBanner ?c) = (Inr True, printBanner ?c)"
    by (simp add: validateWalletFile_def printBanner_def malformedWorld_files)
  let ?w0 = "logger Info [T ''=== Starting New Cycle ===''] (printBanner ?c)"
  have a: "accountsFrom [''query_id=AAE1&hash=abc'', annBlob] 0 ?w0 = (Some TypeError, ?w0)"
    by (subst accountsFrom.simps)
       (simp add: processAccount_malformed [OF parseAccount_no_user])
  have dc: "dataFile ?c = Content (fileOf [''query_id=AAE1&hash=abc'', annBlob])"
    by (simp add: malformedWorld_files)
  have mn: "main (Suc 0) ?c = (Threw TypeError, ?w0)"
    unfolding main_valid [OF v dc] malformedWorld_files(3) by (rule cycles_throw [OF a])
  have st: "start 1 malformedWorld = (Exit 1, logger Error [E TypeError] ?w0)"
    using start_throw [of "Suc 0" malformedWorld TypeError ?w0] mn by (simp add: c)
  show ?thesis
    unfolding st
    by (simp add: parseAccount_no_user p logger_def printBanner_def malformedWorld_files)
qed

lemma lateMalformedWorld_files:
  "dataFile lateMalformedWorld = Content (fileOf [annBlob, ''query_id=AAE1&hash=abc''])"
  "fst (loadWallets lateMalformedWorld) = [''UQC20'', ''UQB71'']"
  "fileLines (fileOf [annBlob, ''query_id=AAE1&hash=abc'']) = [annBlob, ''query_id=AAE1&hash=abc'']"
  by (simp_all add: lateMalformedWorld_def loadWallets_def fileLines_def fileOf_def split_def
      annBlob_def)

theorem malformed_blob_ends_the_run_witness:
  "parseAccount lateMalformedWorld ''query_id=AAE1&hash=abc'' = Inl TypeError
   \<and> processAccount ''query_id=AAE1&hash=abc'' (JStr ''UQB71'') lateMalformedWorld
       = (Some TypeError, lateMalformedWorld)
   \<and> fst (start (Suc 0) lateMalformedWorld) = Exit 1"
proof -
  have l: "length (fst (loadWallets lateMalformedWorld))
      = length (fileLines (fileOf [annBlob, ''query_id=AAE1&hash=abc'']))"
    by (simp add: lateMalformedWorld_files)
  have i: "1 < length (fileLines (fileOf [annBlob, ''query_id=AAE1&hash=abc'']))"
    by (simp add: lateMalformedWorld_files)
  have b: "parseAccount lateMalformedWorld
      (fileLines (fileOf [annBlob, ''query_id=AAE1&hash=abc'']) ! 1) = Inl TypeError"
    by (simp add: lateMalformedWorld_files parseAccount_no_user)
  from malformed_blob_ends_the_run [OF lateMalformedWorld_files(1) l i b,
      of "JStr ''UQB71''" 0]
  show ?thesis by (simp add: lateMalformedWorld_files parseAccount_no_user)
qed

end
